theory Spec2Isabelle
  imports Complex_Main "HOL-Library.Char_ord" "HOL-Library.List_Lexorder" "HOL-Library.Multiset"
begin

section \<open>The impact aggregation of \<open>Consolidated/consolidated1.py\<close>\<close>

text \<open>
  The dashboard script turns hourly usage samples into energy and carbon figures, converts
  billing rows to SEK and merges both per project. The model below follows the script's
  processing block (lines 563 to 680) and the inline classification of
  \<open>discover_resources_and_deployments\<close> (lines 311 to 328).

  Numbers: Python floats are modelled by \<open>real\<close>, so every figure is the exact value of the
  formula; the rounding of IEEE doubles is outside the model. Strings are byte lists.
  A pandas frame is the list of its rows, a row a record of its columns.
\<close>

subsection \<open>Python primitives used by the script\<close>

datatype py_error = KeyError

text \<open>\<open>d[k]\<close> raises \<open>KeyError\<close> on a missing key, \<open>d.get(k, default)\<close> does not.\<close>

definition subscript :: "('k \<rightharpoonup> 'v) \<Rightarrow> 'k \<Rightarrow> py_error + 'v" where
  "subscript d k = (case d k of None \<Rightarrow> Inl KeyError | Some v \<Rightarrow> Inr v)"

definition dict_get :: "('k \<rightharpoonup> 'v) \<Rightarrow> 'k \<Rightarrow> 'v \<Rightarrow> 'v" where
  "dict_get d k dflt = (case d k of None \<Rightarrow> dflt | Some v \<Rightarrow> v)"

text \<open>\<open>str.lower()\<close> on ASCII letters; every other byte is kept.\<close>

definition lower_char :: "char \<Rightarrow> char" where
  "lower_char c =
     (case map_of (zip ''ABCDEFGHIJKLMNOPQRSTUVWXYZ'' ''abcdefghijklmnopqrstuvwxyz'') c of
        None \<Rightarrow> c
      | Some l \<Rightarrow> l)"

definition lower :: "string \<Rightarrow> string" where
  "lower s = map lower_char s"

text \<open>\<open>p in s\<close> for strings: \<open>p\<close> occurs in \<open>s\<close> as a contiguous block.\<close>

fun startswith :: "string \<Rightarrow> string \<Rightarrow> bool" where
  "startswith s [] = True"
| "startswith [] (p # ps) = False"
| "startswith (c # s) (p # ps) = (c = p \<and> startswith s ps)"

fun str_in :: "string \<Rightarrow> string \<Rightarrow> bool" where
  "str_in p [] = startswith [] p"
| "str_in p (c # s) = (startswith (c # s) p \<or> str_in p s)"

text \<open>\<open>s.split(sep)\<close> for a one-character separator: never empty, keeps empty fields.\<close>

fun str_split :: "char \<Rightarrow> string \<Rightarrow> string list" where
  "str_split sep [] = [[]]"
| "str_split sep (c # s) =
     (if c = sep then [] # str_split sep s
      else (case str_split sep s of
              [] \<Rightarrow> [[c]]
            | w # ws \<Rightarrow> (c # w) # ws))"

text \<open>\<open>df.apply(f, axis=1)\<close>: row by row, in order; the first exception ends it.\<close>

fun apply_rows :: "('a \<Rightarrow> py_error + 'b) \<Rightarrow> 'a list \<Rightarrow> py_error + 'b list" where
  "apply_rows f [] = Inr []"
| "apply_rows f (r # rs) =
     (case f r of
        Inl e \<Rightarrow> Inl e
      | Inr v \<Rightarrow> (case apply_rows f rs of Inl e \<Rightarrow> Inl e | Inr vs \<Rightarrow> Inr (v # vs)))"

text \<open>
  \<open>df.groupby(key)\<close>: one group per distinct key, keys in ascending order, each group
  holding its rows in frame order.
\<close>

definition groupby :: "('r \<Rightarrow> string) \<Rightarrow> 'r list \<Rightarrow> (string \<times> 'r list) list" where
  "groupby key rows =
     map (\<lambda>k. (k, filter (\<lambda>r. key r = k) rows)) (sort (remdups (map key rows)))"

subsection \<open>Constants (lines 38 to 66)\<close>

definition REGION_INTENSITY :: "string \<rightharpoonup> real" where
  "REGION_INTENSITY = map_of
     [(''Global Average'', 475),
      (''US East (Virginia)'', 350),
      (''US West (California)'', 200),
      (''Europe (Ireland)'', 280),
      (''Europe (Sweden)'', 20),
      (''Asia (average)'', 550)]"

definition CARBON_FACTORS :: "string \<rightharpoonup> real" where
  "CARBON_FACTORS = map_of
     [(''standard_text'', 0.0004),
      (''reasoning_text'', 0.0015),
      (''image_gen'', 0.05),
      (''embedding'', 0.0001)]"

definition GRAMS_CO2_PER_TREE_DAY :: real where
  "GRAMS_CO2_PER_TREE_DAY = 57.5"

definition EXCHANGE_RATES_TO_SEK :: "string \<rightharpoonup> real" where
  "EXCHANGE_RATES_TO_SEK = map_of
     [(''USD'', 10.8),
      (''EUR'', 11.5),
      (''GBP'', 13.5),
      (''SEK'', 1.0)]"

subsection \<open>Rows\<close>

text \<open>A usage row as \<open>fetch_detailed_metrics\<close> and the demo generator build it.\<close>

record usage_row =
  TimeStamp :: nat
  Account :: string
  ResourceId :: string
  Project :: string
  Deployment :: string
  Model :: string
  Type :: string
  Metric :: string
  Value :: real

text \<open>
  A cost row as \<open>fetch_actual_costs\<close> and the demo generator build it. Neither builds a
  \<open>Project\<close> column, so the test \<open>'Project' in df_cost.columns\<close> of line 607 is false for
  every frame the script processes.
\<close>

record cost_row =
  Date :: nat
  cost_ResourceId :: string
  ActualCost :: real
  OriginalCurrency :: string

text \<open>An inventory entry (lines 323 to 328); \<open>tags\<close> plays no part in the aggregation.\<close>

record inventory_item =
  item_id :: string
  item_name :: string
  item_group :: string
  item_project :: string
  deployment_name :: string
  model_name :: string
  item_type :: string

subsection \<open>Classification of a deployment (lines 313 to 321)\<close>

definition m_type :: "string \<Rightarrow> string" where
  "m_type name =
     (let m_name = lower name in
      if str_in ''dall'' m_name then ''image''
      else if str_in ''o1'' m_name \<or> str_in ''reasoning'' m_name then ''reasoning''
      else if str_in ''embedding'' m_name then ''embedding''
      else ''text'')"

subsection \<open>Energy (lines 565 to 573) and currency (lines 587 to 593)\<close>

definition calc_kwh :: "usage_row \<Rightarrow> py_error + real" where
  "calc_kwh row =
     (let factor = dict_get CARBON_FACTORS ''standard_text'' 0.0004 in
      if Type row = ''image'' then
        (case subscript CARBON_FACTORS ''image_gen'' of
           Inl e \<Rightarrow> Inl e
         | Inr f \<Rightarrow> Inr (Value row * f))
      else if Type row = ''reasoning'' then
        (case subscript CARBON_FACTORS ''reasoning_text'' of
           Inl e \<Rightarrow> Inl e
         | Inr f \<Rightarrow> Inr ((Value row / 1000) * f))
      else if Type row = ''embedding'' then
        (case subscript CARBON_FACTORS ''embedding'' of
           Inl e \<Rightarrow> Inl e
         | Inr f \<Rightarrow> Inr ((Value row / 1000) * f))
      else Inr ((Value row / 1000) * factor))"

definition convert_to_sek :: "real \<Rightarrow> cost_row \<Rightarrow> real" where
  "convert_to_sek usd_rate row =
     (let curr = OriginalCurrency row; val = ActualCost row in
      if curr = ''SEK'' then val
      else if curr = ''USD'' then val * usd_rate
      else if curr = ''EUR'' then val * dict_get EXCHANGE_RATES_TO_SEK ''EUR'' 11.5
      else val * dict_get EXCHANGE_RATES_TO_SEK curr 1.0)"

subsection \<open>Enriched usage rows (lines 575 to 576)\<close>

text \<open>The usage frame after the columns \<open>kWh\<close> and \<open>Carbon_g\<close> are appended.\<close>

record enriched_row =
  row :: usage_row
  kWh :: real
  Carbon_g :: real

definition enrich :: "real \<Rightarrow> usage_row list \<Rightarrow> py_error + enriched_row list" where
  "enrich grid_intensity df_raw =
     (case apply_rows calc_kwh df_raw of
        Inl e \<Rightarrow> Inl e
      | Inr kwhs \<Rightarrow>
          Inr (map (\<lambda>(r, k). \<lparr>row = r, kWh = k, Carbon_g = k * grid_intensity\<rparr>)
                 (zip df_raw kwhs)))"

subsection \<open>Cost rows with \<open>CostSEK\<close> and \<open>ProjectName\<close> (lines 595 to 610)\<close>

record costed_row =
  cost :: cost_row
  CostSEK :: real
  cr_ProjectName :: string

text \<open>
  The dict comprehension of line 601: a later entry with the same id replaces an earlier
  one. Every inventory entry carries the key \<open>project\<close>, so the default
  \<open>item['group']\<close> of \<open>item.get\<close> is never taken.
\<close>

definition id_to_proj :: "inventory_item list \<Rightarrow> (string \<rightharpoonup> string)" where
  "id_to_proj final_inventory =
     map_of (rev (map (\<lambda>item. (item_id item, item_project item)) final_inventory))"

definition project_name :: "inventory_item list \<Rightarrow> cost_row \<Rightarrow> string" where
  "project_name final_inventory r =
     (if final_inventory \<noteq> [] then
        (case id_to_proj final_inventory (cost_ResourceId r) of
           None \<Rightarrow> ''Unknown''
         | Some p \<Rightarrow> p)
      else
        (let parts = str_split CHR ''/'' (cost_ResourceId r) in
         if length parts > 4 then parts ! 4 else ''Unknown''))"

definition cost_columns :: "inventory_item list \<Rightarrow> real \<Rightarrow> cost_row list \<Rightarrow> costed_row list" where
  "cost_columns final_inventory usd_rate df_cost =
     map (\<lambda>r. \<lparr>cost = r, CostSEK = convert_to_sek usd_rate r,
               cr_ProjectName = project_name final_inventory r\<rparr>) df_cost"

subsection \<open>Grouped frames (lines 626 to 627 and 660 to 671)\<close>

record model_row =
  m_Model :: string
  m_Carbon_g :: real
  m_Value :: real

text \<open>
  \<open>sort_values("Carbon_g", ascending=False)\<close> is modelled by a stable sort; pandas does
  not fix the order of rows with equal carbon.
\<close>

definition df_model_of :: "enriched_row list \<Rightarrow> model_row list" where
  "df_model_of df =
     sort_key (\<lambda>m. - m_Carbon_g m)
       (map (\<lambda>(k, g). \<lparr>m_Model = k,
                        m_Carbon_g = sum_list (map Carbon_g g),
                        m_Value = sum_list (map (\<lambda>e. Value (row e)) g)\<rparr>)
          (groupby (\<lambda>e. Model (row e)) df))"

record usage_agg_row =
  u_Project :: string
  u_Carbon_Total :: real
  u_Input_Tokens :: real
  u_Output_Tokens :: real

definition df_usage_agg_of :: "enriched_row list \<Rightarrow> usage_agg_row list" where
  "df_usage_agg_of df =
     map (\<lambda>(k, g).
            \<lparr>u_Project = k,
             u_Carbon_Total = sum_list (map Carbon_g g),
             u_Input_Tokens =
               sum_list (map (\<lambda>e. Value (row e))
                 (filter (\<lambda>e. Metric (row e) = ''ProcessedPromptTokens'') g)),
             u_Output_Tokens =
               sum_list (map (\<lambda>e. Value (row e))
                 (filter (\<lambda>e. Metric (row e) \<in>
                    set [''GeneratedTokens'', ''GeneratedCompletionTokens'']) g))\<rparr>)
       (groupby (\<lambda>e. Project (row e)) df)"

record cost_agg_row =
  c_ProjectName :: string
  c_Cost_SEK :: real

definition df_cost_agg_of :: "costed_row list \<Rightarrow> cost_agg_row list" where
  "df_cost_agg_of df =
     map (\<lambda>(k, g). \<lparr>c_ProjectName = k, c_Cost_SEK = sum_list (map CostSEK g)\<rparr>)
       (groupby cr_ProjectName df)"

subsection \<open>The project summary (lines 673 to 680)\<close>

text \<open>A row of the merged frame; \<open>None\<close> is pandas' missing value.\<close>

record merged_row =
  mg_ProjectName :: "string option"
  mg_Cost_SEK :: "real option"
  mg_Project :: "string option"
  mg_Carbon_Total :: "real option"
  mg_Input_Tokens :: "real option"
  mg_Output_Tokens :: "real option"

definition left_only :: "cost_agg_row \<Rightarrow> merged_row" where
  "left_only a =
     \<lparr>mg_ProjectName = Some (c_ProjectName a), mg_Cost_SEK = Some (c_Cost_SEK a),
      mg_Project = None, mg_Carbon_Total = None,
      mg_Input_Tokens = None, mg_Output_Tokens = None\<rparr>"

definition right_only :: "usage_agg_row \<Rightarrow> merged_row" where
  "right_only b =
     \<lparr>mg_ProjectName = None, mg_Cost_SEK = None,
      mg_Project = Some (u_Project b), mg_Carbon_Total = Some (u_Carbon_Total b),
      mg_Input_Tokens = Some (u_Input_Tokens b),
      mg_Output_Tokens = Some (u_Output_Tokens b)\<rparr>"

definition both_sides :: "cost_agg_row \<Rightarrow> usage_agg_row \<Rightarrow> merged_row" where
  "both_sides a b =
     \<lparr>mg_ProjectName = Some (c_ProjectName a), mg_Cost_SEK = Some (c_Cost_SEK a),
      mg_Project = Some (u_Project b), mg_Carbon_Total = Some (u_Carbon_Total b),
      mg_Input_Tokens = Some (u_Input_Tokens b),
      mg_Output_Tokens = Some (u_Output_Tokens b)\<rparr>"

text \<open>
  \<open>pd.merge(left, right, left_on='ProjectName', right_on='Project', how='outer')\<close>:
  the union of the keys in ascending order; for each key every pairing of a left row
  with a right row, or the rows of the one side that has the key.
\<close>

definition merged_for ::
    "cost_agg_row list \<Rightarrow> usage_agg_row list \<Rightarrow> string \<Rightarrow> merged_row list" where
  "merged_for left right k =
     (let ls = filter (\<lambda>a. c_ProjectName a = k) left;
          rs = filter (\<lambda>b. u_Project b = k) right
      in if rs = [] then map left_only ls
         else if ls = [] then map right_only rs
         else concat (map (\<lambda>a. map (both_sides a) rs) ls))"

definition merge_outer :: "cost_agg_row list \<Rightarrow> usage_agg_row list \<Rightarrow> merged_row list" where
  "merge_outer left right =
     concat (map (merged_for left right)
       (sort (remdups (map c_ProjectName left @ map u_Project right))))"

text \<open>Line 676: \<open>ProjectName\<close> takes \<open>Project\<close> where it is missing.\<close>

definition fillna_ProjectName :: "merged_row \<Rightarrow> merged_row" where
  "fillna_ProjectName m =
     m\<lparr>mg_ProjectName := (case mg_ProjectName m of None \<Rightarrow> mg_Project m | Some p \<Rightarrow> Some p)\<rparr>"

record summary_row =
  ProjectName :: string
  Cost_SEK :: real
  Carbon_Total :: real
  Input_Tokens :: real
  Output_Tokens :: real

text \<open>
  Line 677: \<open>Project\<close> is dropped and every missing value becomes 0. A row of an outer
  merge has its key on one side at least, so after line 676 no name is missing; the model
  writes the 0 that \<open>fillna\<close> would put there as the string \<open>0\<close>.
\<close>

definition drop_fillna :: "merged_row \<Rightarrow> summary_row" where
  "drop_fillna m =
     \<lparr>ProjectName = (case mg_ProjectName m of None \<Rightarrow> ''0'' | Some p \<Rightarrow> p),
      Cost_SEK = (case mg_Cost_SEK m of None \<Rightarrow> 0 | Some v \<Rightarrow> v),
      Carbon_Total = (case mg_Carbon_Total m of None \<Rightarrow> 0 | Some v \<Rightarrow> v),
      Input_Tokens = (case mg_Input_Tokens m of None \<Rightarrow> 0 | Some v \<Rightarrow> v),
      Output_Tokens = (case mg_Output_Tokens m of None \<Rightarrow> 0 | Some v \<Rightarrow> v)\<rparr>"

text \<open>Lines 679 to 680: the usage aggregate renamed, with a constant cost column.\<close>

definition rename_with_zero_cost :: "usage_agg_row \<Rightarrow> summary_row" where
  "rename_with_zero_cost b =
     \<lparr>ProjectName = u_Project b, Cost_SEK = 0.0,
      Carbon_Total = u_Carbon_Total b,
      Input_Tokens = u_Input_Tokens b,
      Output_Tokens = u_Output_Tokens b\<rparr>"

definition df_project_summary_of ::
    "cost_agg_row list \<Rightarrow> usage_agg_row list \<Rightarrow> summary_row list" where
  "df_project_summary_of df_cost_agg df_usage_agg =
     (if df_cost_agg \<noteq> [] then
        map (\<lambda>m. drop_fillna (fillna_ProjectName m)) (merge_outer df_cost_agg df_usage_agg)
      else map rename_with_zero_cost df_usage_agg)"

subsection \<open>The processing block (lines 563 to 680)\<close>

record report =
  r_df_raw :: "enriched_row list"
  total_co2 :: real
  total_kwh :: real
  tree_days :: real
  total_cost_sek :: real
  r_df_cost :: "costed_row list"
  df_model :: "model_row list"
  df_usage_agg :: "usage_agg_row list"
  df_cost_agg :: "cost_agg_row list"
  df_project_summary :: "summary_row list"

text \<open>
  What runs under \<open>if not df_raw.empty\<close>, on the enriched usage frame. The cost columns,
  the cost total and the cost aggregate are only computed under \<open>if not df_cost.empty\<close>;
  otherwise the total stays 0.0 and the aggregate is the empty frame.
\<close>

definition build_report ::
    "inventory_item list \<Rightarrow> real \<Rightarrow> enriched_row list \<Rightarrow> cost_row list \<Rightarrow> report" where
  "build_report final_inventory usd_rate df df_cost =
     (let co2 = sum_list (map Carbon_g df);
          costed = (if df_cost \<noteq> [] then cost_columns final_inventory usd_rate df_cost
                    else []);
          cost_agg = (if df_cost \<noteq> [] then df_cost_agg_of costed else [])
      in \<lparr>r_df_raw = df,
          total_co2 = co2,
          total_kwh = sum_list (map kWh df),
          tree_days = co2 / GRAMS_CO2_PER_TREE_DAY,
          total_cost_sek = (if df_cost \<noteq> [] then sum_list (map CostSEK costed) else 0.0),
          r_df_cost = costed,
          df_model = df_model_of df,
          df_usage_agg = df_usage_agg_of df,
          df_cost_agg = cost_agg,
          df_project_summary = df_project_summary_of cost_agg (df_usage_agg_of df)\<rparr>)"

text \<open>
  The script from the sidebar's region lookup on. With an empty usage frame the block
  under \<open>if not df_raw.empty\<close> is skipped and nothing is computed: the result is
  \<open>None\<close>. What the page displays in that case (lines 733 to 734) is not modelled.
\<close>

definition process ::
    "inventory_item list \<Rightarrow> string \<Rightarrow> real \<Rightarrow> usage_row list \<Rightarrow> cost_row list
       \<Rightarrow> py_error + report option" where
  "process final_inventory selected_region usd_rate df_raw df_cost =
     (case subscript REGION_INTENSITY selected_region of
        Inl e \<Rightarrow> Inl e
      | Inr grid_intensity \<Rightarrow>
          if df_raw = [] then Inr None
          else (case enrich grid_intensity df_raw of
                  Inl e \<Rightarrow> Inl e
                | Inr df \<Rightarrow> Inr (Some (build_report final_inventory usd_rate df df_cost))))"

section \<open>Lemmas about the primitives\<close>

subsection \<open>Substring test\<close>

lemma startswith_iff: "startswith s p \<longleftrightarrow> (\<exists>b. s = p @ b)"
  by (induction s p rule: startswith.induct) auto

lemma str_in_iff: "str_in p s \<longleftrightarrow> (\<exists>a b. s = a @ p @ b)"
proof (induction s)
  case Nil
  show ?case by (simp add: startswith_iff)
next
  case (Cons c s)
  show ?case
  proof
    assume "str_in p (c # s)"
    then consider "startswith (c # s) p" | "str_in p s" by auto
    then show "\<exists>a b. c # s = a @ p @ b"
    proof cases
      case 1
      then obtain b where "c # s = p @ b" by (auto simp: startswith_iff)
      then have "c # s = [] @ p @ b" by simp
      then show ?thesis by blast
    next
      case 2
      then obtain a b where "s = a @ p @ b" using Cons.IH by blast
      then have "c # s = (c # a) @ p @ b" by simp
      then show ?thesis by blast
    qed
  next
    assume "\<exists>a b. c # s = a @ p @ b"
    then obtain a b where ab: "c # s = a @ p @ b" by blast
    show "str_in p (c # s)"
    proof (cases a)
      case Nil
      with ab have "startswith (c # s) p" by (auto simp: startswith_iff)
      then show ?thesis by simp
    next
      case (Cons x a')
      with ab have "s = a' @ p @ b" by simp
      then have "str_in p s" using Cons.IH by blast
      then show ?thesis by simp
    qed
  qed
qed

subsection \<open>Energy and enrichment never raise\<close>

lemma calc_kwh_Inr:
  "calc_kwh r = Inr (if Type r = ''image'' then Value r * 0.05
     else (Value r / 1000) * (if Type r = ''reasoning'' then 0.0015
                              else if Type r = ''embedding'' then 0.0001 else 0.0004))"
  by (simp add: calc_kwh_def CARBON_FACTORS_def subscript_def dict_get_def)

lemma apply_rows_Inr: "(\<And>r. f r = Inr (g r)) \<Longrightarrow> apply_rows f rs = Inr (map g rs)"
  by (induction rs) simp_all

lemma map_zip_same: "map (\<lambda>(r, k). h r k) (zip rs (map g rs)) = map (\<lambda>r. h r (g r)) rs"
  by (induction rs) simp_all

lemma enrich_Inr:
  "enrich g rs = Inr (map (\<lambda>r. \<lparr>row = r, kWh = projr (calc_kwh r), Carbon_g = projr (calc_kwh r) * g\<rparr>) rs)"
proof -
  have "apply_rows calc_kwh rs = Inr (map (\<lambda>r. projr (calc_kwh r)) rs)"
    by (rule apply_rows_Inr) (simp add: calc_kwh_Inr)
  then show ?thesis
    by (simp add: enrich_def map_zip_same)
qed

lemma process_Some:
  assumes "REGION_INTENSITY region = Some g" and "df_raw \<noteq> []"
  shows "process fi region usd df_raw df_cost =
     Inr (Some (build_report fi usd
        (map (\<lambda>r. \<lparr>row = r, kWh = projr (calc_kwh r), Carbon_g = projr (calc_kwh r) * g\<rparr>) df_raw) df_cost))"
  using assms by (simp add: process_def subscript_def enrich_Inr)

lemma region_ga: "REGION_INTENSITY ''Global Average'' = Some 475"
  by (simp add: REGION_INTENSITY_def)
lemma region_se: "REGION_INTENSITY ''Europe (Sweden)'' = Some 20"
  by (simp add: REGION_INTENSITY_def)

subsection \<open>Groups\<close>

lemma filter_eq_distinct:
  "distinct xs \<Longrightarrow> filter (\<lambda>k. k = P) xs = (if P \<in> set xs then [P] else [])"
  by (induction xs) auto

lemma groupby_filter_key:
  "filter (\<lambda>kg. fst kg = P) (groupby key rows) =
     (if P \<in> key ` set rows then [(P, filter (\<lambda>r. key r = P) rows)] else [])"
proof -
  let ?ks = "sort (remdups (map key rows))"
  have d: "distinct ?ks" by simp
  have "filter (\<lambda>kg. fst kg = P) (groupby key rows) =
        map (\<lambda>k. (k, filter (\<lambda>r. key r = k) rows)) (filter (\<lambda>k. k = P) ?ks)"
    by (simp add: groupby_def filter_map comp_def)
  also have "\<dots> = (if P \<in> key ` set rows then [(P, filter (\<lambda>r. key r = P) rows)] else [])"
    using filter_eq_distinct [OF d, of P] by simp
  finally show ?thesis .
qed

lemma sum_groups_aux:
  fixes f :: "'r \<Rightarrow> real"
  assumes "finite K" and "key ` set rows \<subseteq> K"
  shows "(\<Sum>k\<in>K. sum_list (map f (filter (\<lambda>r. key r = k) rows))) = sum_list (map f rows)"
  using assms(2)
proof (induction rows)
  case Nil
  show ?case by simp
next
  case (Cons r rows)
  have "(\<Sum>k\<in>K. sum_list (map f (filter (\<lambda>x. key x = k) (r # rows)))) =
        (\<Sum>k\<in>K. (if k = key r then f r else 0) + sum_list (map f (filter (\<lambda>x. key x = k) rows)))"
    by (rule sum.cong) auto
  also have "\<dots> = (\<Sum>k\<in>K. (if k = key r then f r else 0)) +
                   (\<Sum>k\<in>K. sum_list (map f (filter (\<lambda>x. key x = k) rows)))"
    by (simp add: sum.distrib)
  also have "(\<Sum>k\<in>K. (if k = key r then f r else 0)) = f r"
    using assms(1) Cons.prems by simp
  finally show ?case using Cons by simp
qed

lemma groupby_sum:
  fixes f :: "'r \<Rightarrow> real"
  shows "sum_list (map (\<lambda>kg. sum_list (map f (snd kg))) (groupby key rows)) = sum_list (map f rows)"
proof -
  let ?ks = "sort (remdups (map key rows))"
  have "sum_list (map (\<lambda>kg. sum_list (map f (snd kg))) (groupby key rows)) =
        sum_list (map (\<lambda>k. sum_list (map f (filter (\<lambda>r. key r = k) rows))) ?ks)"
    by (simp add: groupby_def comp_def)
  also have "\<dots> = (\<Sum>k\<in>set ?ks. sum_list (map f (filter (\<lambda>r. key r = k) rows)))"
    by (rule sum_list_distinct_conv_sum_set) simp
  also have "\<dots> = sum_list (map f rows)"
    by (rule sum_groups_aux) auto
  finally show ?thesis .
qed

lemma sum_list_sort_key:
  fixes f :: "'a \<Rightarrow> real"
  shows "sum_list (map f (sort_key g xs)) = sum_list (map f xs)"
proof -
  have "mset (map f (sort_key g xs)) = mset (map f xs)" by simp
  then show ?thesis by (metis sum_mset_sum_list)
qed

lemma region_pos: "REGION_INTENSITY region = Some g \<Longrightarrow> 0 < g"
  by (auto simp: REGION_INTENSITY_def split: if_splits)

lemma process_empty:
  "REGION_INTENSITY region = Some g \<Longrightarrow> process fi region usd [] df_cost = Inr None"
  by (simp add: process_def subscript_def)

lemma process_unknown_region:
  "REGION_INTENSITY region = None \<Longrightarrow> process fi region usd df_raw df_cost = Inl KeyError"
  by (simp add: process_def subscript_def)

lemma groupby_map:
  "groupby key (map f xs) = map (\<lambda>kg. (fst kg, map f (snd kg))) (groupby (\<lambda>x. key (f x)) xs)"
  by (simp add: groupby_def filter_map comp_def)

lemma groupby_keys: "map fst (groupby key rows) = sort (remdups (map key rows))"
  by (simp add: groupby_def comp_def)

lemma groupby_mset: "mset (concat (map snd (groupby key rows))) = mset rows"
proof -
  have aux: "finite K \<Longrightarrow> key ` set rows \<subseteq> K \<Longrightarrow>
      (\<Sum>k\<in>K. mset (filter (\<lambda>r. key r = k) rows)) = mset rows" for K
  proof (induction rows)
    case Nil
    show ?case by simp
  next
    case (Cons r rows)
    have "(\<Sum>k\<in>K. mset (filter (\<lambda>x. key x = k) (r # rows))) =
          (\<Sum>k\<in>K. (if k = key r then {#r#} else {#}) + mset (filter (\<lambda>x. key x = k) rows))"
      by (rule sum.cong) auto
    also have "\<dots> = (\<Sum>k\<in>K. (if k = key r then {#r#} else {#})) +
                     (\<Sum>k\<in>K. mset (filter (\<lambda>x. key x = k) rows))"
      by (simp add: sum.distrib)
    also have "(\<Sum>k\<in>K. (if k = key r then {#r#} else {#})) = {#r#}"
      using Cons.prems by simp
    finally show ?case using Cons by simp
  qed
  let ?ks = "sort (remdups (map key rows))"
  have "mset (concat (map snd (groupby key rows))) =
        sum_list (map (\<lambda>k. mset (filter (\<lambda>r. key r = k) rows)) ?ks)"
    by (simp add: groupby_def comp_def mset_concat)
  also have "\<dots> = (\<Sum>k\<in>set ?ks. mset (filter (\<lambda>r. key r = k) rows))"
    by (rule sum_list_distinct_conv_sum_set) simp
  also have "\<dots> = mset rows"
    by (rule aux) auto
  finally show ?thesis .
qed

lemma sum_list_scale: "sum_list (map (\<lambda>c. c * a) xs) = sum_list xs * (a::real)"
  by (induction xs) (simp_all add: algebra_simps)

lemma sum_list_filter_disj:
  fixes f :: "'a \<Rightarrow> real"
  assumes "\<And>x. \<not> (P x \<and> Q x)"
  shows "sum_list (map f (filter (\<lambda>x. P x \<or> Q x) xs)) =
         sum_list (map f (filter P xs)) + sum_list (map f (filter Q xs))"
  using assms by (induction xs) auto

subsection \<open>The aggregated frames in closed form\<close>

lemma df_usage_agg_closed:
  "df_usage_agg_of df =
     map (\<lambda>k. \<lparr>u_Project = k,
               u_Carbon_Total = sum_list (map Carbon_g (filter (\<lambda>e. Project (row e) = k) df)),
               u_Input_Tokens = sum_list (map (\<lambda>e. Value (row e))
                  (filter (\<lambda>e. Metric (row e) = ''ProcessedPromptTokens'')
                     (filter (\<lambda>e. Project (row e) = k) df))),
               u_Output_Tokens = sum_list (map (\<lambda>e. Value (row e))
                  (filter (\<lambda>e. Metric (row e) \<in> set [''GeneratedTokens'', ''GeneratedCompletionTokens''])
                     (filter (\<lambda>e. Project (row e) = k) df)))\<rparr>)
       (sort (remdups (map (\<lambda>e. Project (row e)) df)))"
  by (simp add: df_usage_agg_of_def groupby_def comp_def)

lemma df_cost_agg_closed:
  "df_cost_agg_of df =
     map (\<lambda>k. \<lparr>c_ProjectName = k,
               c_Cost_SEK = sum_list (map CostSEK (filter (\<lambda>c. cr_ProjectName c = k) df))\<rparr>)
       (sort (remdups (map cr_ProjectName df)))"
  by (simp add: df_cost_agg_of_def groupby_def comp_def)

lemma build_report_fields:
  "r_df_raw (build_report fi usd df df_cost) = df"
  "total_co2 (build_report fi usd df df_cost) = sum_list (map Carbon_g df)"
  "total_kwh (build_report fi usd df df_cost) = sum_list (map kWh df)"
  "tree_days (build_report fi usd df df_cost) = sum_list (map Carbon_g df) / GRAMS_CO2_PER_TREE_DAY"
  "df_model (build_report fi usd df df_cost) = df_model_of df"
  "df_usage_agg (build_report fi usd df df_cost) = df_usage_agg_of df"
  "r_df_cost (build_report fi usd df df_cost) = cost_columns fi usd df_cost"
  "total_cost_sek (build_report fi usd df df_cost) = sum_list (map CostSEK (cost_columns fi usd df_cost))"
  "df_cost_agg (build_report fi usd df df_cost) = df_cost_agg_of (cost_columns fi usd df_cost)"
  "df_project_summary (build_report fi usd df df_cost) =
     df_project_summary_of (df_cost_agg_of (cost_columns fi usd df_cost)) (df_usage_agg_of df)"
  by (simp_all add: build_report_def Let_def cost_columns_def df_cost_agg_closed)

lemma filter_map_distinct_key:
  assumes "distinct ks" and "\<And>k. name (G k) = k"
  shows "filter (\<lambda>a. name a = P) (map G ks) = (if P \<in> set ks then [G P] else [])"
proof -
  have "filter (\<lambda>a. name a = P) (map G ks) = map G (filter (\<lambda>k. k = P) ks)"
    by (simp add: filter_map comp_def assms(2))
  then show ?thesis
    using filter_eq_distinct [OF assms(1), of P] by simp
qed

lemma df_usage_agg_filter:
  "filter (\<lambda>a. u_Project a = P) (df_usage_agg_of df) =
     (if P \<in> (\<lambda>e. Project (row e)) ` set df then
        [\<lparr>u_Project = P,
          u_Carbon_Total = sum_list (map Carbon_g (filter (\<lambda>e. Project (row e) = P) df)),
          u_Input_Tokens = sum_list (map (\<lambda>e. Value (row e))
             (filter (\<lambda>e. Metric (row e) = ''ProcessedPromptTokens'')
                (filter (\<lambda>e. Project (row e) = P) df))),
          u_Output_Tokens = sum_list (map (\<lambda>e. Value (row e))
             (filter (\<lambda>e. Metric (row e) \<in> set [''GeneratedTokens'', ''GeneratedCompletionTokens''])
                (filter (\<lambda>e. Project (row e) = P) df)))\<rparr>]
      else [])"
  unfolding df_usage_agg_closed
  by (subst filter_map_distinct_key) simp_all

lemma df_cost_agg_filter:
  "filter (\<lambda>a. c_ProjectName a = P) (df_cost_agg_of df) =
     (if P \<in> cr_ProjectName ` set df then
        [\<lparr>c_ProjectName = P,
          c_Cost_SEK = sum_list (map CostSEK (filter (\<lambda>c. cr_ProjectName c = P) df))\<rparr>]
      else [])"
  unfolding df_cost_agg_closed
  by (subst filter_map_distinct_key) simp_all

lemma sort_key_Nil_iff: "sort_key f xs = [] \<longleftrightarrow> xs = []"
  using length_sort [of f xs] by (metis length_0_conv)

lemma df_cost_agg_empty: "df_cost_agg_of df = [] \<longleftrightarrow> df = []"
  by (simp add: df_cost_agg_closed sort_key_Nil_iff)

lemma cost_columns_empty: "cost_columns fi usd df_cost = [] \<longleftrightarrow> df_cost = []"
  by (simp add: cost_columns_def)

subsection \<open>The outer merge, key by key\<close>

lemma filter_concat_keys:
  assumes "distinct ks"
    and "\<And>k x. k \<in> set ks \<Longrightarrow> x \<in> set (F k) \<Longrightarrow> name x = k"
  shows "filter (\<lambda>x. name x = P) (concat (map F ks)) = (if P \<in> set ks then F P else [])"
  using assms
proof (induction ks)
  case Nil
  show ?case by simp
next
  case (Cons k ks)
  have names: "\<And>x. x \<in> set (F k) \<Longrightarrow> name x = k"
    using Cons.prems(2) by simp
  have IH: "filter (\<lambda>x. name x = P) (concat (map F ks)) = (if P \<in> set ks then F P else [])"
    using Cons.IH Cons.prems by simp
  show ?case
  proof (cases "k = P")
    case True
    have "filter (\<lambda>x. name x = P) (F k) = F k"
      using names True by (simp add: filter_id_conv)
    moreover have "P \<notin> set ks" using Cons.prems(1) True by simp
    ultimately show ?thesis using IH True by simp
  next
    case False
    have "filter (\<lambda>x. name x = P) (F k) = []"
      using names False by (auto simp: filter_empty_conv)
    then show ?thesis using IH False by simp
  qed
qed

lemma merged_for_name:
  assumes "m \<in> set (merged_for left right k)"
  shows "ProjectName (drop_fillna (fillna_ProjectName m)) = k"
  using assms
  by (auto simp: merged_for_def Let_def drop_fillna_def fillna_ProjectName_def
      left_only_def right_only_def both_sides_def split: if_splits)

lemma summary_filter_merged:
  "filter (\<lambda>s. ProjectName s = P)
      (map (\<lambda>m. drop_fillna (fillna_ProjectName m)) (merge_outer left right)) =
   (if P \<in> c_ProjectName ` set left \<union> u_Project ` set right
    then map (\<lambda>m. drop_fillna (fillna_ProjectName m)) (merged_for left right P) else [])"
proof -
  let ?h = "\<lambda>m. drop_fillna (fillna_ProjectName m)"
  let ?ks = "sort (remdups (map c_ProjectName left @ map u_Project right))"
  have m: "map ?h (merge_outer left right) = concat (map (\<lambda>k. map ?h (merged_for left right k)) ?ks)"
    unfolding merge_outer_def by (simp add: map_concat comp_def)
  have "filter (\<lambda>s. ProjectName s = P) (concat (map (\<lambda>k. map ?h (merged_for left right k)) ?ks)) =
        (if P \<in> set ?ks then map ?h (merged_for left right P) else [])"
    by (rule filter_concat_keys) (auto simp: merged_for_name)
  then show ?thesis unfolding m by simp
qed

lemma summary_filter:
  "filter (\<lambda>s. ProjectName s = P) (df_project_summary (build_report fi usd df df_cost)) =
     (if P \<in> project_name fi ` set df_cost \<union> (\<lambda>e. Project (row e)) ` set df then
        [\<lparr>ProjectName = P,
          Cost_SEK = sum_list (map (convert_to_sek usd)
             (filter (\<lambda>c. project_name fi c = P) df_cost)),
          Carbon_Total = sum_list (map Carbon_g (filter (\<lambda>e. Project (row e) = P) df)),
          Input_Tokens = sum_list (map (\<lambda>e. Value (row e))
             (filter (\<lambda>e. Metric (row e) = ''ProcessedPromptTokens'')
                (filter (\<lambda>e. Project (row e) = P) df))),
          Output_Tokens = sum_list (map (\<lambda>e. Value (row e))
             (filter (\<lambda>e. Metric (row e) \<in> set [''GeneratedTokens'', ''GeneratedCompletionTokens''])
                (filter (\<lambda>e. Project (row e) = P) df)))\<rparr>]
      else [])"
proof -
  let ?costed = "cost_columns fi usd df_cost"
  let ?L = "df_cost_agg_of ?costed"
  let ?R = "df_usage_agg_of df"
  have keysL: "cr_ProjectName ` set ?costed = project_name fi ` set df_cost"
    by (auto simp: cost_columns_def image_iff)
  have sumL: "sum_list (map CostSEK (filter (\<lambda>c. cr_ProjectName c = P) ?costed)) =
      sum_list (map (convert_to_sek usd) (filter (\<lambda>c. project_name fi c = P) df_cost))"
    by (simp add: cost_columns_def filter_map comp_def)
  have fl: "filter (\<lambda>a. c_ProjectName a = P) ?L =
      (if P \<in> project_name fi ` set df_cost then
         [\<lparr>c_ProjectName = P, c_Cost_SEK = sum_list (map (convert_to_sek usd)
             (filter (\<lambda>c. project_name fi c = P) df_cost))\<rparr>] else [])"
    unfolding df_cost_agg_filter keysL sumL ..
  have kL: "c_ProjectName ` set ?L = project_name fi ` set df_cost"
    by (simp add: df_cost_agg_closed keysL image_image)
  have kR: "u_Project ` set ?R = (\<lambda>e. Project (row e)) ` set df"
    by (simp add: df_usage_agg_closed image_image)
  have noL: "P \<notin> project_name fi ` set df_cost \<Longrightarrow> filter (\<lambda>c. project_name fi c = P) df_cost = []"
    by (auto simp: filter_empty_conv)
  have noR: "P \<notin> (\<lambda>e. Project (row e)) ` set df \<Longrightarrow> filter (\<lambda>e. Project (row e) = P) df = []"
    by (auto simp: filter_empty_conv)
  show ?thesis
  proof (cases "df_cost = []")
    case True
    have "df_project_summary (build_report fi usd df df_cost) = map rename_with_zero_cost ?R"
      using True by (simp add: build_report_fields df_project_summary_of_def cost_columns_def
          df_cost_agg_closed)
    moreover have "filter (\<lambda>s. ProjectName s = P) (map rename_with_zero_cost ?R) =
        map rename_with_zero_cost (filter (\<lambda>a. u_Project a = P) ?R)"
      by (simp add: filter_map comp_def rename_with_zero_cost_def)
    ultimately show ?thesis
      using True by (simp add: df_usage_agg_filter rename_with_zero_cost_def)
  next
    case False
    then have "?L \<noteq> []" by (simp add: df_cost_agg_empty cost_columns_empty)
    then have s: "df_project_summary (build_report fi usd df df_cost) =
        map (\<lambda>m. drop_fillna (fillna_ProjectName m)) (merge_outer ?L ?R)"
      by (simp add: build_report_fields df_project_summary_of_def)
    show ?thesis
      unfolding s summary_filter_merged kL kR
      by (auto simp: merged_for_def fl df_usage_agg_filter noL noR
          drop_fillna_def fillna_ProjectName_def left_only_def right_only_def both_sides_def
          simp del: filter_filter)
  qed
qed

lemma filter_no_key: "P \<notin> key ` set xs \<Longrightarrow> filter (\<lambda>x. key x = P) xs = []"
  by (auto simp: filter_empty_conv)

subsection \<open>Project labels of cost rows\<close>

lemma str_split_not_Nil: "str_split sep s \<noteq> []"
  by (induction s) (auto split: list.splits)

lemma str_split_no_sep: "sep \<notin> set s \<Longrightarrow> str_split sep s = [s]"
  by (induction s) auto

lemma str_split_first: "sep \<notin> set a \<Longrightarrow> str_split sep (a @ sep # b) = a # str_split sep b"
  by (induction a) (auto split: list.splits)

lemma str_split_length: "length (str_split sep s) = Suc (length (filter (\<lambda>x. x = sep) s))"
  by (induction s) (auto split: list.splits simp: str_split_not_Nil)

lemma str_split_hd: "hd (str_split sep s) = takeWhile (\<lambda>x. x \<noteq> sep) s"
  by (induction s) (auto split: list.splits simp: str_split_not_Nil)

lemma id_to_proj_None: "rid \<notin> item_id ` set fi \<Longrightarrow> id_to_proj fi rid = None"
  by (simp add: id_to_proj_def map_of_eq_None_iff image_image)

lemma map_of_append_None: "map_of as k = None \<Longrightarrow> map_of (as @ bs) k = map_of bs k"
  by (induction as) auto

lemma id_to_proj_last:
  assumes "item_id it = rid" and "rid \<notin> item_id ` set ys"
  shows "id_to_proj (xs @ it # ys) rid = Some (item_project it)"
proof -
  let ?f = "\<lambda>item. (item_id item, item_project item)"
  have none: "map_of (rev (map ?f ys)) rid = None"
    using assms(2) by (simp add: map_of_eq_None_iff image_image)
  have "id_to_proj (xs @ it # ys) rid =
        map_of (rev (map ?f ys) @ ?f it # rev (map ?f xs)) rid"
    by (simp add: id_to_proj_def)
  also have "\<dots> = map_of (?f it # rev (map ?f xs)) rid"
    by (rule map_of_append_None [OF none])
  also have "\<dots> = Some (item_project it)"
    using assms(1) by simp
  finally show ?thesis .
qed

lemma project_name_unknown_id:
  "fi \<noteq> [] \<Longrightarrow> cost_ResourceId c \<notin> item_id ` set fi \<Longrightarrow> project_name fi c = ''Unknown''"
  by (simp add: project_name_def id_to_proj_None)

lemma project_name_inventory:
  "item_id it = cost_ResourceId c \<Longrightarrow> cost_ResourceId c \<notin> item_id ` set ys \<Longrightarrow>
   project_name (xs @ it # ys) c = item_project it"
  by (simp add: project_name_def id_to_proj_last)

lemma project_name_segment:
  assumes "cost_ResourceId c = s0 @ ''/'' @ s1 @ ''/'' @ s2 @ ''/'' @ s3 @ ''/'' @ rest"
    and "CHR ''/'' \<notin> set s0 \<union> set s1 \<union> set s2 \<union> set s3"
  shows "project_name [] c = takeWhile (\<lambda>x. x \<noteq> CHR ''/'') rest"
proof -
  have "str_split CHR ''/'' (cost_ResourceId c) = s0 # s1 # s2 # s3 # str_split CHR ''/'' rest"
    using assms by (simp add: str_split_first)
  moreover obtain w ws where "str_split CHR ''/'' rest = w # ws"
    using str_split_not_Nil [of "CHR ''/''" rest] by (cases "str_split CHR ''/'' rest") auto
  moreover from this have "w = takeWhile (\<lambda>x. x \<noteq> CHR ''/'') rest"
    using str_split_hd [of "CHR ''/''" rest] by simp
  ultimately show ?thesis
    by (simp add: project_name_def)
qed

lemma project_name_few_slashes:
  "length (filter (\<lambda>x. x = CHR ''/'') (cost_ResourceId c)) < 4 \<Longrightarrow>
   project_name [] c = ''Unknown''"
  by (simp add: project_name_def str_split_length)

lemma cost_row_in_summary:
  assumes "REGION_INTENSITY region = Some g" and "df_raw \<noteq> []" and "c \<in> set df_cost"
  shows "\<exists>rep s. process fi region usd_rate df_raw df_cost = Inr (Some rep) \<and>
           map cost (r_df_cost rep) = df_cost \<and>
           map cr_ProjectName (r_df_cost rep) = map (project_name fi) df_cost \<and>
           filter (\<lambda>s. ProjectName s = project_name fi c) (df_project_summary rep) = [s] \<and>
           Cost_SEK s = sum_list (map (convert_to_sek usd_rate)
              (filter (\<lambda>c'. project_name fi c' = project_name fi c) df_cost))"
proof -
  let ?df = "map (\<lambda>r. \<lparr>row = r, kWh = projr (calc_kwh r), Carbon_g = projr (calc_kwh r) * g\<rparr>) df_raw"
  let ?rep = "build_report fi usd_rate ?df df_cost"
  let ?P = "project_name fi c"
  let ?s = "\<lparr>ProjectName = ?P,
          Cost_SEK = sum_list (map (convert_to_sek usd_rate)
             (filter (\<lambda>c'. project_name fi c' = ?P) df_cost)),
          Carbon_Total = sum_list (map Carbon_g (filter (\<lambda>e. Project (row e) = ?P) ?df)),
          Input_Tokens = sum_list (map (\<lambda>e. Value (row e))
             (filter (\<lambda>e. Metric (row e) = ''ProcessedPromptTokens'')
                (filter (\<lambda>e. Project (row e) = ?P) ?df))),
          Output_Tokens = sum_list (map (\<lambda>e. Value (row e))
             (filter (\<lambda>e. Metric (row e) \<in> set [''GeneratedTokens'', ''GeneratedCompletionTokens''])
                (filter (\<lambda>e. Project (row e) = ?P) ?df)))\<rparr>"
  have p: "process fi region usd_rate df_raw df_cost = Inr (Some ?rep)"
    by (rule process_Some [OF assms(1,2)])
  have k: "map cost (r_df_cost ?rep) = df_cost"
    by (simp add: build_report_fields cost_columns_def comp_def)
  have n: "map cr_ProjectName (r_df_cost ?rep) = map (project_name fi) df_cost"
    by (simp add: build_report_fields cost_columns_def comp_def)
  have Pin: "?P \<in> project_name fi ` set df_cost" using assms(3) by simp
  have f: "filter (\<lambda>s. ProjectName s = ?P) (df_project_summary ?rep) = [?s]"
    unfolding summary_filter using Pin by simp
  have v: "Cost_SEK ?s = sum_list (map (convert_to_sek usd_rate)
              (filter (\<lambda>c'. project_name fi c' = ?P) df_cost))"
    by simp
  show ?thesis
    by (intro exI [of _ ?rep] exI [of _ ?s] conjI p k n f v)
qed

section \<open>The claims\<close>

subsection \<open>C1\<close>

text \<open>
  C1. For every usage row, \<open>calc_kwh\<close> returns value times 0.05 kWh when the usage type
  is \<open>image\<close>, with no division by 1000, and otherwise (value / 1000) times a factor: 0.0015
  for \<open>reasoning\<close>, 0.0001 for \<open>embedding\<close> and 0.0004 for every other type, \<open>text\<close> and
  unrecognised types included. It returns a value on every row.
\<close>

theorem calc_kwh_formula:
  "(Type r = ''image'' \<longrightarrow> calc_kwh r = Inr (Value r * 0.05)) \<and>
   (Type r = ''reasoning'' \<longrightarrow> calc_kwh r = Inr ((Value r / 1000) * 0.0015)) \<and>
   (Type r = ''embedding'' \<longrightarrow> calc_kwh r = Inr ((Value r / 1000) * 0.0001)) \<and>
   (Type r \<notin> {''image'', ''reasoning'', ''embedding''} \<longrightarrow>
      calc_kwh r = Inr ((Value r / 1000) * 0.0004))"
  by (simp add: calc_kwh_Inr)

theorem calc_kwh_formula_witness:
  "calc_kwh \<lparr>TimeStamp = 0, Account = ''acct'', ResourceId = ''id'', Project = ''p'',
       Deployment = ''d'', Model = ''dall-e-3'', Type = ''image'',
       Metric = ''GeneratedImages'', Value = 5\<rparr> = Inr 0.25 \<and>
   calc_kwh \<lparr>TimeStamp = 0, Account = ''acct'', ResourceId = ''id'', Project = ''p'',
       Deployment = ''d'', Model = ''o1-preview'', Type = ''reasoning'',
       Metric = ''GeneratedTokens'', Value = 2000\<rparr> = Inr 0.003 \<and>
   calc_kwh \<lparr>TimeStamp = 0, Account = ''acct'', ResourceId = ''id'', Project = ''p'',
       Deployment = ''d'', Model = ''ada'', Type = ''embedding'',
       Metric = ''ProcessedPromptTokens'', Value = 2000\<rparr> = Inr 0.0002 \<and>
   calc_kwh \<lparr>TimeStamp = 0, Account = ''acct'', ResourceId = ''id'', Project = ''p'',
       Deployment = ''d'', Model = ''gpt-4'', Type = ''text'',
       Metric = ''ProcessedPromptTokens'', Value = 2000\<rparr> = Inr 0.0008 \<and>
   calc_kwh \<lparr>TimeStamp = 0, Account = ''acct'', ResourceId = ''id'', Project = ''p'',
       Deployment = ''d'', Model = ''whisper'', Type = ''audio'',
       Metric = ''ProcessedPromptTokens'', Value = 2000\<rparr> = Inr 0.0008"
  using
    calc_kwh_formula [of "\<lparr>TimeStamp = 0, Account = ''acct'', ResourceId = ''id'', Project = ''p'',
       Deployment = ''d'', Model = ''dall-e-3'', Type = ''image'',
       Metric = ''GeneratedImages'', Value = 5\<rparr>"]
    calc_kwh_formula [of "\<lparr>TimeStamp = 0, Account = ''acct'', ResourceId = ''id'', Project = ''p'',
       Deployment = ''d'', Model = ''o1-preview'', Type = ''reasoning'',
       Metric = ''GeneratedTokens'', Value = 2000\<rparr>"]
    calc_kwh_formula [of "\<lparr>TimeStamp = 0, Account = ''acct'', ResourceId = ''id'', Project = ''p'',
       Deployment = ''d'', Model = ''ada'', Type = ''embedding'',
       Metric = ''ProcessedPromptTokens'', Value = 2000\<rparr>"]
    calc_kwh_formula [of "\<lparr>TimeStamp = 0, Account = ''acct'', ResourceId = ''id'', Project = ''p'',
       Deployment = ''d'', Model = ''gpt-4'', Type = ''text'',
       Metric = ''ProcessedPromptTokens'', Value = 2000\<rparr>"]
    calc_kwh_formula [of "\<lparr>TimeStamp = 0, Account = ''acct'', ResourceId = ''id'', Project = ''p'',
       Deployment = ''d'', Model = ''whisper'', Type = ''audio'',
       Metric = ''ProcessedPromptTokens'', Value = 2000\<rparr>"]
  by simp

subsection \<open>C2\<close>

text \<open>
  C2. The classification of a deployment is a total function of the lower-cased model
  name, by ordered substring rules where the first match wins: a name containing \<open>dall\<close>
  is \<open>image\<close>; otherwise one containing \<open>o1\<close> or \<open>reasoning\<close> is \<open>reasoning\<close>; otherwise
  one containing \<open>embedding\<close> is \<open>embedding\<close>; every other name is \<open>text\<close>. The four
  named models classify as image, reasoning, embedding and text.
\<close>

theorem m_type_rules:
  "m_type name =
     (if (\<exists>a b. lower name = a @ ''dall'' @ b) then ''image''
      else if (\<exists>a b. lower name = a @ ''o1'' @ b) \<or> (\<exists>a b. lower name = a @ ''reasoning'' @ b)
        then ''reasoning''
      else if (\<exists>a b. lower name = a @ ''embedding'' @ b) then ''embedding''
      else ''text'') \<and>
   (lower name = lower name' \<longrightarrow> m_type name = m_type name') \<and>
   m_type name \<in> {''image'', ''reasoning'', ''embedding'', ''text''} \<and>
   m_type ''dall-e-3'' = ''image'' \<and>
   m_type ''o1-preview'' = ''reasoning'' \<and>
   m_type ''text-embedding-ada-002'' = ''embedding'' \<and>
   m_type ''gpt-4'' = ''text''"
proof -
  have rules: "m_type name =
     (if (\<exists>a b. lower name = a @ ''dall'' @ b) then ''image''
      else if (\<exists>a b. lower name = a @ ''o1'' @ b) \<or> (\<exists>a b. lower name = a @ ''reasoning'' @ b)
        then ''reasoning''
      else if (\<exists>a b. lower name = a @ ''embedding'' @ b) then ''embedding''
      else ''text'')"
    unfolding m_type_def Let_def str_in_iff by (rule refl)
  have same: "lower name = lower name' \<longrightarrow> m_type name = m_type name'"
    by (simp add: m_type_def)
  have range: "m_type name \<in> {''image'', ''reasoning'', ''embedding'', ''text''}"
    by (simp add: m_type_def Let_def)
  have ex: "m_type ''dall-e-3'' = ''image''" "m_type ''o1-preview'' = ''reasoning''"
    "m_type ''text-embedding-ada-002'' = ''embedding''" "m_type ''gpt-4'' = ''text''"
    by (simp_all add: m_type_def lower_def lower_char_def)
  from rules same range ex show ?thesis by blast
qed

theorem m_type_rules_witness:
  "lower ''DALL-E-3'' = lower ''dall-e-3'' \<and> m_type ''DALL-E-3'' = m_type ''dall-e-3'' \<and>
   m_type ''DALL-E-3'' = ''image''"
proof -
  have h: "lower ''DALL-E-3'' = lower ''dall-e-3''"
    by (simp add: lower_def lower_char_def)
  have r: "(lower ''DALL-E-3'' = lower ''dall-e-3'' \<longrightarrow> m_type ''DALL-E-3'' = m_type ''dall-e-3'')
      \<and> m_type ''dall-e-3'' = ''image''"
    using m_type_rules [of "''DALL-E-3''" "''dall-e-3''"] by blast
  from h r show ?thesis by simp
qed

subsection \<open>C3\<close>

text \<open>
  C3. End to end: three usage rows, (text, ProcessedPromptTokens, 1000), (text,
  GeneratedTokens, 500) and (image, GeneratedImages, 2), with the region Global Average
  (475 g/kWh), give a total energy of 0.1006 kWh, a total carbon of 47.785 g, and
  tree-days, the total carbon divided by 57.5, of about 0.831.
\<close>

theorem end_to_end_scenario:
  assumes "Type r1 = ''text''" and "Value r1 = 1000"
    and "Type r2 = ''text''" and "Value r2 = 500"
    and "Type r3 = ''image''" and "Value r3 = 2"
  shows "\<exists>rep. process fi ''Global Average'' usd_rate [r1, r2, r3] df_cost = Inr (Some rep) \<and>
           REGION_INTENSITY ''Global Average'' = Some 475 \<and>
           total_kwh rep = 0.1006 \<and>
           total_co2 rep = 47.785 \<and>
           tree_days rep = total_co2 rep / 57.5 \<and>
           \<bar>tree_days rep - 0.831\<bar> < 0.0001"
proof -
  let ?df = "map (\<lambda>r. \<lparr>row = r, kWh = projr (calc_kwh r),
                        Carbon_g = projr (calc_kwh r) * 475\<rparr>) [r1, r2, r3]"
  let ?rep = "build_report fi usd_rate ?df df_cost"
  have p: "process fi ''Global Average'' usd_rate [r1, r2, r3] df_cost = Inr (Some ?rep)"
    by (rule process_Some [OF region_ga]) simp
  have k: "total_kwh ?rep = 0.1006"
    using assms by (simp add: build_report_def Let_def calc_kwh_Inr)
  have c: "total_co2 ?rep = 47.785"
    using assms by (simp add: build_report_def Let_def calc_kwh_Inr)
  have t: "tree_days ?rep = total_co2 ?rep / 57.5"
    by (simp add: build_report_def Let_def GRAMS_CO2_PER_TREE_DAY_def)
  have a: "\<bar>tree_days ?rep - 0.831\<bar> < 0.0001"
    unfolding t c by simp
  from p k c t a region_ga show ?thesis by blast
qed

theorem end_to_end_scenario_witness:
  "\<exists>rep. process [] ''Global Average'' 10.8
      [\<lparr>TimeStamp = 0, Account = ''acct'', ResourceId = ''id'', Project = ''p'',
        Deployment = ''d1'', Model = ''gpt-4'', Type = ''text'',
        Metric = ''ProcessedPromptTokens'', Value = 1000\<rparr>,
       \<lparr>TimeStamp = 0, Account = ''acct'', ResourceId = ''id'', Project = ''p'',
        Deployment = ''d1'', Model = ''gpt-4'', Type = ''text'',
        Metric = ''GeneratedTokens'', Value = 500\<rparr>,
       \<lparr>TimeStamp = 0, Account = ''acct'', ResourceId = ''id'', Project = ''p'',
        Deployment = ''d2'', Model = ''dall-e-3'', Type = ''image'',
        Metric = ''GeneratedImages'', Value = 2\<rparr>] [] = Inr (Some rep) \<and>
     total_kwh rep = 0.1006 \<and> total_co2 rep = 47.785 \<and>
     \<bar>tree_days rep - 0.831\<bar> < 0.0001"
  using end_to_end_scenario [of
      "\<lparr>TimeStamp = 0, Account = ''acct'', ResourceId = ''id'', Project = ''p'',
        Deployment = ''d1'', Model = ''gpt-4'', Type = ''text'',
        Metric = ''ProcessedPromptTokens'', Value = 1000\<rparr>"
      "\<lparr>TimeStamp = 0, Account = ''acct'', ResourceId = ''id'', Project = ''p'',
        Deployment = ''d1'', Model = ''gpt-4'', Type = ''text'',
        Metric = ''GeneratedTokens'', Value = 500\<rparr>"
      "\<lparr>TimeStamp = 0, Account = ''acct'', ResourceId = ''id'', Project = ''p'',
        Deployment = ''d2'', Model = ''dall-e-3'', Type = ''image'',
        Metric = ''GeneratedImages'', Value = 2\<rparr>" "[]" "10.8" "[]"]
  by simp blast

subsection \<open>C4\<close>

text \<open>
  C4. \<open>convert_to_sek\<close> returns the amount unchanged for SEK, the amount times the
  user's rate for USD, the amount times 11.5 (the table's rate) for EUR, and for any other
  currency the amount times the table's rate, with 1.0 when the table does not know the
  currency. So 100 USD at rate 10.8 is 1080, 100 SEK is 100 and 100 XXX is 100. The function
  has no raising branch: it is total.
\<close>

theorem convert_to_sek_rules:
  "(OriginalCurrency r = ''SEK'' \<longrightarrow> convert_to_sek usd_rate r = ActualCost r) \<and>
   (OriginalCurrency r = ''USD'' \<longrightarrow> convert_to_sek usd_rate r = ActualCost r * usd_rate) \<and>
   (OriginalCurrency r = ''EUR'' \<longrightarrow> convert_to_sek usd_rate r = ActualCost r * 11.5) \<and>
   (OriginalCurrency r \<notin> {''SEK'', ''USD'', ''EUR''} \<longrightarrow>
      convert_to_sek usd_rate r =
        ActualCost r * (case EXCHANGE_RATES_TO_SEK (OriginalCurrency r) of
                          None \<Rightarrow> 1.0 | Some rate \<Rightarrow> rate)) \<and>
   (OriginalCurrency r = ''GBP'' \<longrightarrow> convert_to_sek usd_rate r = ActualCost r * 13.5) \<and>
   (OriginalCurrency r \<notin> {''SEK'', ''USD'', ''EUR'', ''GBP''} \<longrightarrow>
      EXCHANGE_RATES_TO_SEK (OriginalCurrency r) = None \<and>
      convert_to_sek usd_rate r = ActualCost r) \<and>
   EXCHANGE_RATES_TO_SEK ''EUR'' = Some 11.5 \<and>
   convert_to_sek 10.8 \<lparr>Date = d, cost_ResourceId = rid, ActualCost = 100,
                         OriginalCurrency = ''USD''\<rparr> = 1080 \<and>
   convert_to_sek usd_rate \<lparr>Date = d, cost_ResourceId = rid, ActualCost = 100,
                         OriginalCurrency = ''SEK''\<rparr> = 100 \<and>
   convert_to_sek usd_rate \<lparr>Date = d, cost_ResourceId = rid, ActualCost = 100,
                         OriginalCurrency = ''XXX''\<rparr> = 100"
  by (simp add: convert_to_sek_def EXCHANGE_RATES_TO_SEK_def dict_get_def)

theorem convert_to_sek_rules_witness:
  "convert_to_sek 10.8 \<lparr>Date = 0, cost_ResourceId = ''id'', ActualCost = 100,
                         OriginalCurrency = ''SEK''\<rparr> = 100 \<and>
   convert_to_sek 10.8 \<lparr>Date = 0, cost_ResourceId = ''id'', ActualCost = 100,
                         OriginalCurrency = ''USD''\<rparr> = 1080 \<and>
   convert_to_sek 10.8 \<lparr>Date = 0, cost_ResourceId = ''id'', ActualCost = 100,
                         OriginalCurrency = ''EUR''\<rparr> = 1150 \<and>
   convert_to_sek 10.8 \<lparr>Date = 0, cost_ResourceId = ''id'', ActualCost = 100,
                         OriginalCurrency = ''GBP''\<rparr> = 1350 \<and>
   convert_to_sek 10.8 \<lparr>Date = 0, cost_ResourceId = ''id'', ActualCost = 100,
                         OriginalCurrency = ''XXX''\<rparr> = 100"
  using
    convert_to_sek_rules [of "\<lparr>Date = 0, cost_ResourceId = ''id'', ActualCost = 100,
                         OriginalCurrency = ''SEK''\<rparr>" "10.8"]
    convert_to_sek_rules [of "\<lparr>Date = 0, cost_ResourceId = ''id'', ActualCost = 100,
                         OriginalCurrency = ''USD''\<rparr>" "10.8"]
    convert_to_sek_rules [of "\<lparr>Date = 0, cost_ResourceId = ''id'', ActualCost = 100,
                         OriginalCurrency = ''EUR''\<rparr>" "10.8"]
    convert_to_sek_rules [of "\<lparr>Date = 0, cost_ResourceId = ''id'', ActualCost = 100,
                         OriginalCurrency = ''GBP''\<rparr>" "10.8"]
    convert_to_sek_rules [of "\<lparr>Date = 0, cost_ResourceId = ''id'', ActualCost = 100,
                         OriginalCurrency = ''XXX''\<rparr>" "10.8"]
  by simp

subsection \<open>C5\<close>

text \<open>
  C5. The project summary is an outer join of the cost aggregate and the usage aggregate
  per project: when one project has cost rows but no usage rows and another has usage rows
  but no cost rows, both have their row in the summary, the first with carbon, input
  tokens and output tokens 0, the second with cost 0, and neither is dropped.
\<close>

theorem outer_join_keeps_both_projects:
  assumes "REGION_INTENSITY region = Some g"
    and "c \<in> set df_cost" and "project_name fi c \<notin> Project ` set df_raw"
    and "u \<in> set df_raw" and "Project u \<notin> project_name fi ` set df_cost"
  shows "\<exists>rep. process fi region usd_rate df_raw df_cost = Inr (Some rep) \<and>
           filter (\<lambda>s. ProjectName s = project_name fi c) (df_project_summary rep) =
             [\<lparr>ProjectName = project_name fi c,
               Cost_SEK = sum_list (map (convert_to_sek usd_rate)
                  (filter (\<lambda>c'. project_name fi c' = project_name fi c) df_cost)),
               Carbon_Total = 0, Input_Tokens = 0, Output_Tokens = 0\<rparr>] \<and>
           filter (\<lambda>s. ProjectName s = Project u) (df_project_summary rep) =
             [\<lparr>ProjectName = Project u,
               Cost_SEK = 0,
               Carbon_Total = sum_list (map Carbon_g
                  (filter (\<lambda>e. Project (row e) = Project u) (r_df_raw rep))),
               Input_Tokens = sum_list (map Value
                  (filter (\<lambda>r. Project r = Project u \<and>
                     Metric r = ''ProcessedPromptTokens'') df_raw)),
               Output_Tokens = sum_list (map Value
                  (filter (\<lambda>r. Project r = Project u \<and>
                     Metric r \<in> {''GeneratedTokens'', ''GeneratedCompletionTokens''}) df_raw))\<rparr>]"
proof -
  let ?P = "project_name fi c" and ?Q = "Project u"
  let ?df = "map (\<lambda>r. \<lparr>row = r, kWh = projr (calc_kwh r), Carbon_g = projr (calc_kwh r) * g\<rparr>) df_raw"
  let ?rep = "build_report fi usd_rate ?df df_cost"
  have ne: "df_raw \<noteq> []" using assms(4) by auto
  have p: "process fi region usd_rate df_raw df_cost = Inr (Some ?rep)"
    by (rule process_Some [OF assms(1) ne])
  have keys: "(\<lambda>e. Project (row e)) ` set ?df = Project ` set df_raw"
    by (auto simp: image_iff)
  have Pin: "?P \<in> project_name fi ` set df_cost" using assms(2) by simp
  have Qin: "?Q \<in> Project ` set df_raw" using assms(4) by simp
  have noP: "filter (\<lambda>e. Project (row e) = ?P) ?df = []"
    by (rule filter_no_key) (simp only: keys assms(3) not_False_eq_True)
  have noQ: "filter (\<lambda>c'. project_name fi c' = ?Q) df_cost = []"
    by (rule filter_no_key) (rule assms(5))
  have rowP: "filter (\<lambda>s. ProjectName s = ?P) (df_project_summary ?rep) =
             [\<lparr>ProjectName = ?P,
               Cost_SEK = sum_list (map (convert_to_sek usd_rate)
                  (filter (\<lambda>c'. project_name fi c' = ?P) df_cost)),
               Carbon_Total = 0, Input_Tokens = 0, Output_Tokens = 0\<rparr>]"
    unfolding summary_filter noP using Pin by simp
  have rowQ: "filter (\<lambda>s. ProjectName s = ?Q) (df_project_summary ?rep) =
             [\<lparr>ProjectName = ?Q,
               Cost_SEK = 0,
               Carbon_Total = sum_list (map Carbon_g
                  (filter (\<lambda>e. Project (row e) = ?Q) (r_df_raw ?rep))),
               Input_Tokens = sum_list (map Value
                  (filter (\<lambda>r. Project r = ?Q \<and>
                     Metric r = ''ProcessedPromptTokens'') df_raw)),
               Output_Tokens = sum_list (map Value
                  (filter (\<lambda>r. Project r = ?Q \<and>
                     Metric r \<in> {''GeneratedTokens'', ''GeneratedCompletionTokens''}) df_raw))\<rparr>]"
    unfolding summary_filter noQ keys using Qin
    by (simp add: build_report_fields filter_map comp_def conj_commute)
  from p rowP rowQ show ?thesis by blast
qed

theorem outer_join_keeps_both_projects_witness:
  "\<exists>rep. process [] ''Global Average'' 10.8
      [\<lparr>TimeStamp = 0, Account = ''acct'', ResourceId = ''/subscriptions/s/resourceGroups/B/x'',
        Project = ''B'', Deployment = ''d1'', Model = ''gpt-4'', Type = ''text'',
        Metric = ''ProcessedPromptTokens'', Value = 1000\<rparr>]
      [\<lparr>Date = 0, cost_ResourceId = ''/subscriptions/s/resourceGroups/A/x'',
        ActualCost = 100, OriginalCurrency = ''USD''\<rparr>] = Inr (Some rep) \<and>
     filter (\<lambda>s. ProjectName s = ''A'') (df_project_summary rep) =
       [\<lparr>ProjectName = ''A'', Cost_SEK = 1080,
         Carbon_Total = 0, Input_Tokens = 0, Output_Tokens = 0\<rparr>] \<and>
     map (\<lambda>s. (ProjectName s, Cost_SEK s, Input_Tokens s, Output_Tokens s))
       (filter (\<lambda>s. ProjectName s = ''B'') (df_project_summary rep)) =
       [(''B'', 0, 1000, 0)]"
proof -
  define u where "u = \<lparr>TimeStamp = 0, Account = ''acct'',
        ResourceId = ''/subscriptions/s/resourceGroups/B/x'',
        Project = ''B'', Deployment = ''d1'', Model = ''gpt-4'', Type = ''text'',
        Metric = ''ProcessedPromptTokens'', Value = 1000\<rparr>"
  define c where "c = \<lparr>Date = 0, cost_ResourceId = ''/subscriptions/s/resourceGroups/A/x'',
        ActualCost = 100, OriginalCurrency = ''USD''\<rparr>"
  define A where "A = ''A''"
  define B where "B = ''B''"
  define GA where "GA = ''Global Average''"
  have reg: "REGION_INTENSITY GA = Some 475" unfolding GA_def by (rule region_ga)
  have pn: "project_name [] c = A"
    by (simp add: project_name_def c_def A_def)
  have pu: "Project u = B" by (simp add: u_def B_def)
  have AB: "A \<noteq> B" by (simp add: A_def B_def)
  have h2: "c \<in> set [c]" and h4: "u \<in> set [u]" by simp_all
  have h3: "project_name [] c \<notin> Project ` set [u]" using AB by (simp add: pn pu)
  have h5: "Project u \<notin> project_name [] ` set [c]" using AB by (simp add: pn pu)
  have cv: "sum_list (map (convert_to_sek 10.8)
      (filter (\<lambda>c'. project_name [] c' = A) [c])) = 1080"
    by (simp add: pn) (simp add: convert_to_sek_def c_def)
  have iv: "sum_list (map Value (filter (\<lambda>r. Project r = B \<and>
                     Metric r = ''ProcessedPromptTokens'') [u])) = 1000"
    by (simp add: pu) (simp add: u_def)
  have ov: "sum_list (map Value (filter (\<lambda>r. Project r = B \<and>
               Metric r \<in> {''GeneratedTokens'', ''GeneratedCompletionTokens''}) [u])) = 0"
    by (simp add: pu) (simp add: u_def)
  have inst: "\<exists>rep. process [] GA 10.8 [u] [c] = Inr (Some rep) \<and>
           filter (\<lambda>s. ProjectName s = A) (df_project_summary rep) =
             [\<lparr>ProjectName = A, Cost_SEK = 1080,
               Carbon_Total = 0, Input_Tokens = 0, Output_Tokens = 0\<rparr>] \<and>
           filter (\<lambda>s. ProjectName s = B) (df_project_summary rep) =
             [\<lparr>ProjectName = B, Cost_SEK = 0,
               Carbon_Total = sum_list (map Carbon_g
                  (filter (\<lambda>e. Project (row e) = B) (r_df_raw rep))),
               Input_Tokens = 1000, Output_Tokens = 0\<rparr>]"
    using outer_join_keeps_both_projects [OF reg h2 h3 h4 h5, of "10.8"]
    unfolding pn pu cv iv ov .
  then have "\<exists>rep. process [] GA 10.8 [u] [c] = Inr (Some rep) \<and>
     filter (\<lambda>s. ProjectName s = A) (df_project_summary rep) =
       [\<lparr>ProjectName = A, Cost_SEK = 1080,
         Carbon_Total = 0, Input_Tokens = 0, Output_Tokens = 0\<rparr>] \<and>
     map (\<lambda>s. (ProjectName s, Cost_SEK s, Input_Tokens s, Output_Tokens s))
       (filter (\<lambda>s. ProjectName s = B) (df_project_summary rep)) = [(B, 0, 1000, 0)]"
  proof (elim exE conjE)
    fix rep
    assume p: "process [] GA 10.8 [u] [c] = Inr (Some rep)"
      and a: "filter (\<lambda>s. ProjectName s = A) (df_project_summary rep) =
             [\<lparr>ProjectName = A, Cost_SEK = 1080,
               Carbon_Total = 0, Input_Tokens = 0, Output_Tokens = 0\<rparr>]"
      and b: "filter (\<lambda>s. ProjectName s = B) (df_project_summary rep) =
             [\<lparr>ProjectName = B, Cost_SEK = 0,
               Carbon_Total = sum_list (map Carbon_g
                  (filter (\<lambda>e. Project (row e) = B) (r_df_raw rep))),
               Input_Tokens = 1000, Output_Tokens = 0\<rparr>]"
    have b': "map (\<lambda>s. (ProjectName s, Cost_SEK s, Input_Tokens s, Output_Tokens s))
       (filter (\<lambda>s. ProjectName s = B) (df_project_summary rep)) = [(B, 0, 1000, 0)]"
      unfolding b by simp
    show ?thesis
      by (intro exI [of _ rep] conjI p a b')
  qed
  then show ?thesis unfolding u_def c_def A_def B_def GA_def .
qed

subsection \<open>C6\<close>

text \<open>
  C6, as the script has it. With a non-empty inventory the label of a cost row is the
  project the inventory gives for its resource id (the last entry with that id), and
  \<open>Unknown\<close> when the inventory has no entry for it: the resource path is not consulted.
  Only with an empty inventory is the label parsed from the path: the part at index 4 of
  the split at \<open>/\<close>, which is the resource group of
  \<open>/subscriptions/{sub}/resourceGroups/{rg}/...\<close>, or \<open>Unknown\<close> when the path has fewer
  than four slashes. In every case, when there is a usage row, the cost row is kept: its
  label has exactly one row in the project summary, whose cost sums the rows of that label.
\<close>

theorem project_label_rules:
  "(fi \<noteq> [] \<and> cost_ResourceId c \<notin> item_id ` set fi \<longrightarrow> project_name fi c = ''Unknown'') \<and>
   (fi = xs @ it # ys \<and> item_id it = cost_ResourceId c \<and>
      cost_ResourceId c \<notin> item_id ` set ys \<longrightarrow> project_name fi c = item_project it) \<and>
   (fi = [] \<and> cost_ResourceId c = s0 @ ''/'' @ s1 @ ''/'' @ s2 @ ''/'' @ s3 @ ''/'' @ rest \<and>
      CHR ''/'' \<notin> set s0 \<union> set s1 \<union> set s2 \<union> set s3 \<longrightarrow>
      project_name fi c = takeWhile (\<lambda>x. x \<noteq> CHR ''/'') rest) \<and>
   (fi = [] \<and> length (filter (\<lambda>x. x = CHR ''/'') (cost_ResourceId c)) < 4 \<longrightarrow>
      project_name fi c = ''Unknown'') \<and>
   (REGION_INTENSITY region = Some g \<and> df_raw \<noteq> [] \<and> c \<in> set df_cost \<longrightarrow>
      (\<exists>rep s. process fi region usd_rate df_raw df_cost = Inr (Some rep) \<and>
           map cost (r_df_cost rep) = df_cost \<and>
           map cr_ProjectName (r_df_cost rep) = map (project_name fi) df_cost \<and>
           filter (\<lambda>s. ProjectName s = project_name fi c) (df_project_summary rep) = [s] \<and>
           Cost_SEK s = sum_list (map (convert_to_sek usd_rate)
              (filter (\<lambda>c'. project_name fi c' = project_name fi c) df_cost))))"
proof (intro conjI impI)
  assume "fi \<noteq> [] \<and> cost_ResourceId c \<notin> item_id ` set fi"
  then show "project_name fi c = ''Unknown''"
    using project_name_unknown_id by (elim conjE)
next
  assume "fi = xs @ it # ys \<and> item_id it = cost_ResourceId c \<and>
      cost_ResourceId c \<notin> item_id ` set ys"
  then show "project_name fi c = item_project it"
    using project_name_inventory [of it c ys xs] by (elim conjE) simp
next
  assume "fi = [] \<and> cost_ResourceId c = s0 @ ''/'' @ s1 @ ''/'' @ s2 @ ''/'' @ s3 @ ''/'' @ rest \<and>
      CHR ''/'' \<notin> set s0 \<union> set s1 \<union> set s2 \<union> set s3"
  then show "project_name fi c = takeWhile (\<lambda>x. x \<noteq> CHR ''/'') rest"
    using project_name_segment [of c s0 s1 s2 s3 rest] by (elim conjE) simp
next
  assume "fi = [] \<and> length (filter (\<lambda>x. x = CHR ''/'') (cost_ResourceId c)) < 4"
  then show "project_name fi c = ''Unknown''"
    using project_name_few_slashes [of c] by (elim conjE) simp
next
  assume "REGION_INTENSITY region = Some g \<and> df_raw \<noteq> [] \<and> c \<in> set df_cost"
  then show "\<exists>rep s. process fi region usd_rate df_raw df_cost = Inr (Some rep) \<and>
           map cost (r_df_cost rep) = df_cost \<and>
           map cr_ProjectName (r_df_cost rep) = map (project_name fi) df_cost \<and>
           filter (\<lambda>s. ProjectName s = project_name fi c) (df_project_summary rep) = [s] \<and>
           Cost_SEK s = sum_list (map (convert_to_sek usd_rate)
              (filter (\<lambda>c'. project_name fi c' = project_name fi c) df_cost))"
    using cost_row_in_summary [of region g df_raw c df_cost fi usd_rate] by (elim conjE) simp
qed

theorem project_label_rules_witness:
  "project_name
     [\<lparr>item_id = ''/subscriptions/s/resourceGroups/rg-a/providers/p/accounts/a'',
       item_name = ''a'', item_group = ''rg-a'', item_project = ''proj-a'',
       deployment_name = ''d'', model_name = ''gpt-4'', item_type = ''text''\<rparr>]
     \<lparr>Date = 0, cost_ResourceId = ''/subscriptions/s/resourceGroups/rg-b/providers/p/accounts/b'',
      ActualCost = 100, OriginalCurrency = ''SEK''\<rparr> = ''Unknown'' \<and>
   project_name
     [\<lparr>item_id = ''/subscriptions/s/resourceGroups/rg-a/providers/p/accounts/a'',
       item_name = ''a'', item_group = ''rg-a'', item_project = ''proj-a'',
       deployment_name = ''d'', model_name = ''gpt-4'', item_type = ''text''\<rparr>]
     \<lparr>Date = 0, cost_ResourceId = ''/subscriptions/s/resourceGroups/rg-a/providers/p/accounts/a'',
      ActualCost = 100, OriginalCurrency = ''SEK''\<rparr> = ''proj-a'' \<and>
   project_name []
     \<lparr>Date = 0, cost_ResourceId = ''/subscriptions/s/resourceGroups/rg-b/providers/p/accounts/b'',
      ActualCost = 100, OriginalCurrency = ''SEK''\<rparr> = ''rg-b'' \<and>
   project_name []
     \<lparr>Date = 0, cost_ResourceId = ''/subscriptions/s'',
      ActualCost = 100, OriginalCurrency = ''SEK''\<rparr> = ''Unknown'' \<and>
   (\<exists>rep s. process [] ''Global Average'' 10.8
        [\<lparr>TimeStamp = 0, Account = ''acct'', ResourceId = ''id'', Project = ''p'',
          Deployment = ''d1'', Model = ''gpt-4'', Type = ''text'',
          Metric = ''ProcessedPromptTokens'', Value = 1000\<rparr>]
        [\<lparr>Date = 0,
          cost_ResourceId = ''/subscriptions/s/resourceGroups/rg-b/providers/p/accounts/b'',
          ActualCost = 100, OriginalCurrency = ''SEK''\<rparr>] = Inr (Some rep) \<and>
      filter (\<lambda>s. ProjectName s = ''rg-b'') (df_project_summary rep) = [s] \<and>
      Cost_SEK s = 100)"
proof -
  define itA where "itA =
     \<lparr>item_id = ''/subscriptions/s/resourceGroups/rg-a/providers/p/accounts/a'',
       item_name = ''a'', item_group = ''rg-a'', item_project = ''proj-a'',
       deployment_name = ''d'', model_name = ''gpt-4'', item_type = ''text''\<rparr>"
  define cA where "cA =
     \<lparr>Date = 0, cost_ResourceId = ''/subscriptions/s/resourceGroups/rg-a/providers/p/accounts/a'',
      ActualCost = 100, OriginalCurrency = ''SEK''\<rparr>"
  define cB where "cB =
     \<lparr>Date = 0, cost_ResourceId = ''/subscriptions/s/resourceGroups/rg-b/providers/p/accounts/b'',
      ActualCost = 100, OriginalCurrency = ''SEK''\<rparr>"
  define cS where "cS =
     \<lparr>Date = 0, cost_ResourceId = ''/subscriptions/s'',
      ActualCost = 100, OriginalCurrency = ''SEK''\<rparr>"
  define u where "u =
     \<lparr>TimeStamp = 0, Account = ''acct'', ResourceId = ''id'', Project = ''p'',
          Deployment = ''d1'', Model = ''gpt-4'', Type = ''text'',
          Metric = ''ProcessedPromptTokens'', Value = 1000\<rparr>"
  define GA where "GA = ''Global Average''"
  define rgb where "rgb = ''rg-b''"
  have reg: "REGION_INTENSITY GA = Some 475" unfolding GA_def by (rule region_ga)
  have k1: "project_name [itA] cB = ''Unknown''"
    by (rule project_label_rules [where fi = "[itA]" and c = cB, THEN conjunct1, rule_format])
       (simp add: itA_def cB_def)
  have k2: "project_name [itA] cA = item_project itA"
    by (rule project_label_rules [where fi = "[itA]" and c = cA and xs = "[]" and it = itA
          and ys = "[]", THEN conjunct2, THEN conjunct1, rule_format])
       (simp add: itA_def cA_def)
  have k2': "item_project itA = ''proj-a''" by (simp add: itA_def)
  have k3: "project_name [] cB =
      takeWhile (\<lambda>x. x \<noteq> CHR ''/'') ''rg-b/providers/p/accounts/b''"
    by (rule project_label_rules [where fi = "[]" and c = cB and ?s0.0 = "[]"
          and ?s1.0 = "''subscriptions''" and ?s2.0 = "''s''" and ?s3.0 = "''resourceGroups''"
          and rest = "''rg-b/providers/p/accounts/b''",
          THEN conjunct2, THEN conjunct2, THEN conjunct1, rule_format])
       (simp add: cB_def)
  have k3': "takeWhile (\<lambda>x. x \<noteq> CHR ''/'') ''rg-b/providers/p/accounts/b'' = rgb"
    by (simp add: rgb_def)
  have k4: "project_name [] cS = ''Unknown''"
    by (rule project_label_rules [where fi = "[]" and c = cS,
          THEN conjunct2, THEN conjunct2, THEN conjunct2, THEN conjunct1, rule_format])
       (simp add: cS_def)
  have pn: "project_name [] cB = rgb" using k3 k3' by simp
  have cv: "sum_list (map (convert_to_sek 10.8)
      (filter (\<lambda>c'. project_name [] c' = rgb) [cB])) = 100"
    by (simp add: pn) (simp add: convert_to_sek_def cB_def)
  have "\<exists>rep s. process [] GA 10.8 [u] [cB] = Inr (Some rep) \<and>
           map cost (r_df_cost rep) = [cB] \<and>
           map cr_ProjectName (r_df_cost rep) = map (project_name []) [cB] \<and>
           filter (\<lambda>s. ProjectName s = project_name [] cB) (df_project_summary rep) = [s] \<and>
           Cost_SEK s = sum_list (map (convert_to_sek 10.8)
              (filter (\<lambda>c'. project_name [] c' = project_name [] cB) [cB]))"
    by (rule project_label_rules [where fi = "[]" and c = cB and region = GA and g = 475
          and df_raw = "[u]" and df_cost = "[cB]" and usd_rate = "10.8",
          THEN conjunct2, THEN conjunct2, THEN conjunct2, THEN conjunct2, rule_format])
       (simp add: reg)
  then have k5: "\<exists>rep s. process [] GA 10.8 [u] [cB] = Inr (Some rep) \<and>
      filter (\<lambda>s. ProjectName s = rgb) (df_project_summary rep) = [s] \<and>
      Cost_SEK s = 100"
    unfolding pn cv
  proof (elim exE conjE)
    fix rep s
    assume p: "process [] GA 10.8 [u] [cB] = Inr (Some rep)"
      and f: "filter (\<lambda>s. ProjectName s = rgb) (df_project_summary rep) = [s]"
      and v: "Cost_SEK s = 100"
    show ?thesis by (intro exI [of _ rep] exI [of _ s] conjI p f v)
  qed
  from k1 k2 [unfolded k2'] pn k4 k5
  have "project_name [itA] cB = ''Unknown'' \<and> project_name [itA] cA = ''proj-a'' \<and>
      project_name [] cB = rgb \<and> project_name [] cS = ''Unknown'' \<and>
      (\<exists>rep s. process [] GA 10.8 [u] [cB] = Inr (Some rep) \<and>
      filter (\<lambda>s. ProjectName s = rgb) (df_project_summary rep) = [s] \<and>
      Cost_SEK s = 100)"
    by (intro conjI)
  then show ?thesis unfolding itA_def cA_def cB_def cS_def u_def GA_def rgb_def .
qed

text \<open>
  C6 as stated has every cost row without an inventory entry fall back to the resource
  group of its path. With an inventory that knows another account, a cost row whose path
  has the resource group \<open>rg-b\<close> is labelled \<open>Unknown\<close>.
\<close>

theorem project_label_counterexample:
  "id_to_proj
     [\<lparr>item_id = ''/subscriptions/s/resourceGroups/rg-a/providers/p/accounts/a'',
       item_name = ''a'', item_group = ''rg-a'', item_project = ''proj-a'',
       deployment_name = ''d'', model_name = ''gpt-4'', item_type = ''text''\<rparr>]
     ''/subscriptions/s/resourceGroups/rg-b/providers/p/accounts/b'' = None \<and>
   4 < length (str_split CHR ''/'' ''/subscriptions/s/resourceGroups/rg-b/providers/p/accounts/b'') \<and>
   str_split CHR ''/'' ''/subscriptions/s/resourceGroups/rg-b/providers/p/accounts/b'' ! 4 = ''rg-b'' \<and>
   project_name
     [\<lparr>item_id = ''/subscriptions/s/resourceGroups/rg-a/providers/p/accounts/a'',
       item_name = ''a'', item_group = ''rg-a'', item_project = ''proj-a'',
       deployment_name = ''d'', model_name = ''gpt-4'', item_type = ''text''\<rparr>]
     \<lparr>Date = 0, cost_ResourceId = ''/subscriptions/s/resourceGroups/rg-b/providers/p/accounts/b'',
      ActualCost = 100, OriginalCurrency = ''SEK''\<rparr> = ''Unknown''"
  by (simp add: project_name_def id_to_proj_def)

subsection \<open>C7\<close>

text \<open>
  C7. For every usage row the carbon grams are the energy in kWh times the intensity of
  the selected region, and the energy does not depend on the region: going from a region
  of intensity g1 to one of intensity g2 multiplies every row's carbon, the total carbon
  and every project's carbon by g2 / g1 and leaves every kWh figure unchanged. One kWh is
  475 g at Global Average and 20 g at Europe (Sweden).
\<close>

theorem carbon_linear_in_region:
  assumes "REGION_INTENSITY region1 = Some g1"
    and "REGION_INTENSITY region2 = Some g2"
    and "df_raw \<noteq> []"
  shows "\<exists>rep1 rep2.
           process fi region1 usd_rate df_raw df_cost = Inr (Some rep1) \<and>
           process fi region2 usd_rate df_raw df_cost = Inr (Some rep2) \<and>
           map row (r_df_raw rep1) = df_raw \<and>
           map row (r_df_raw rep2) = df_raw \<and>
           (\<forall>e\<in>set (r_df_raw rep1). calc_kwh (row e) = Inr (kWh e) \<and> Carbon_g e = kWh e * g1) \<and>
           (\<forall>e\<in>set (r_df_raw rep2). calc_kwh (row e) = Inr (kWh e) \<and> Carbon_g e = kWh e * g2) \<and>
           map kWh (r_df_raw rep2) = map kWh (r_df_raw rep1) \<and>
           map Carbon_g (r_df_raw rep2) = map (\<lambda>c. c * (g2 / g1)) (map Carbon_g (r_df_raw rep1)) \<and>
           total_kwh rep2 = total_kwh rep1 \<and>
           total_co2 rep2 = total_co2 rep1 * (g2 / g1) \<and>
           map u_Carbon_Total (df_usage_agg rep2) =
             map (\<lambda>c. c * (g2 / g1)) (map u_Carbon_Total (df_usage_agg rep1))"
proof -
  let ?E = "\<lambda>g r. \<lparr>row = r, kWh = projr (calc_kwh r), Carbon_g = projr (calc_kwh r) * g\<rparr>"
  let ?rep1 = "build_report fi usd_rate (map (?E g1) df_raw) df_cost"
  let ?rep2 = "build_report fi usd_rate (map (?E g2) df_raw) df_cost"
  have g1: "g1 \<noteq> 0" using region_pos [OF assms(1)] by simp
  have scale: "x * g2 = x * g1 * (g2 / g1)" for x :: real using g1 by simp
  have p1: "process fi region1 usd_rate df_raw df_cost = Inr (Some ?rep1)"
    by (rule process_Some [OF assms(1) assms(3)])
  have p2: "process fi region2 usd_rate df_raw df_cost = Inr (Some ?rep2)"
    by (rule process_Some [OF assms(2) assms(3)])
  have r1: "map row (r_df_raw ?rep1) = df_raw" and r2: "map row (r_df_raw ?rep2) = df_raw"
    by (simp_all add: build_report_fields comp_def)
  have e1: "\<forall>e\<in>set (r_df_raw ?rep1). calc_kwh (row e) = Inr (kWh e) \<and> Carbon_g e = kWh e * g1"
    by (auto simp: build_report_fields calc_kwh_Inr)
  have e2: "\<forall>e\<in>set (r_df_raw ?rep2). calc_kwh (row e) = Inr (kWh e) \<and> Carbon_g e = kWh e * g2"
    by (auto simp: build_report_fields calc_kwh_Inr)
  have k: "map kWh (r_df_raw ?rep2) = map kWh (r_df_raw ?rep1)"
    by (simp add: build_report_fields comp_def)
  have c: "map Carbon_g (r_df_raw ?rep2) = map (\<lambda>c. c * (g2 / g1)) (map Carbon_g (r_df_raw ?rep1))"
    using g1 by (simp add: build_report_fields comp_def)
  have tk: "total_kwh ?rep2 = total_kwh ?rep1"
    by (simp add: build_report_fields comp_def)
  have "total_co2 ?rep2 = sum_list (map Carbon_g (r_df_raw ?rep2))"
    by (simp add: build_report_fields)
  also have "\<dots> = sum_list (map (\<lambda>c. c * (g2 / g1)) (map Carbon_g (r_df_raw ?rep1)))"
    by (simp only: c)
  also have "\<dots> = sum_list (map Carbon_g (r_df_raw ?rep1)) * (g2 / g1)"
    by (rule sum_list_scale)
  also have "\<dots> = total_co2 ?rep1 * (g2 / g1)"
    by (simp add: build_report_fields)
  finally have tc: "total_co2 ?rep2 = total_co2 ?rep1 * (g2 / g1)" .
  have agg: "map u_Carbon_Total (df_usage_agg_of (map (?E g) df_raw)) =
      map (\<lambda>k. sum_list (map (\<lambda>r. projr (calc_kwh r)) (filter (\<lambda>r. Project r = k) df_raw)) * g)
        (sort (remdups (map Project df_raw)))" for g
    by (simp add: df_usage_agg_closed comp_def filter_map sum_list_mult_const)
  have ua: "map u_Carbon_Total (df_usage_agg ?rep2) =
             map (\<lambda>c. c * (g2 / g1)) (map u_Carbon_Total (df_usage_agg ?rep1))"
    using g1 by (simp add: build_report_fields agg)
  from p1 p2 r1 r2 e1 e2 k c tk tc ua show ?thesis by blast
qed

theorem carbon_linear_in_region_witness:
  "REGION_INTENSITY ''Global Average'' = Some 475 \<and>
   REGION_INTENSITY ''Europe (Sweden)'' = Some 20 \<and>
   (\<exists>rep1 rep2.
      process [] ''Global Average'' 10.8
        [\<lparr>TimeStamp = 0, Account = ''acct'', ResourceId = ''id'', Project = ''p'',
          Deployment = ''d2'', Model = ''dall-e-3'', Type = ''image'',
          Metric = ''GeneratedImages'', Value = 20\<rparr>] [] = Inr (Some rep1) \<and>
      process [] ''Europe (Sweden)'' 10.8
        [\<lparr>TimeStamp = 0, Account = ''acct'', ResourceId = ''id'', Project = ''p'',
          Deployment = ''d2'', Model = ''dall-e-3'', Type = ''image'',
          Metric = ''GeneratedImages'', Value = 20\<rparr>] [] = Inr (Some rep2) \<and>
      map kWh (r_df_raw rep2) = map kWh (r_df_raw rep1) \<and>
      map Carbon_g (r_df_raw rep2) = map (\<lambda>c. c * (20 / 475)) (map Carbon_g (r_df_raw rep1)) \<and>
      total_kwh rep2 = total_kwh rep1 \<and>
      total_co2 rep2 = total_co2 rep1 * (20 / 475)) \<and>
   map_sum id (map_option (\<lambda>rep. (map kWh (r_df_raw rep), map Carbon_g (r_df_raw rep))))
     (process [] ''Global Average'' 10.8
        [\<lparr>TimeStamp = 0, Account = ''acct'', ResourceId = ''id'', Project = ''p'',
          Deployment = ''d2'', Model = ''dall-e-3'', Type = ''image'',
          Metric = ''GeneratedImages'', Value = 20\<rparr>] []) = Inr (Some ([1], [475])) \<and>
   map_sum id (map_option (\<lambda>rep. (map kWh (r_df_raw rep), map Carbon_g (r_df_raw rep))))
     (process [] ''Europe (Sweden)'' 10.8
        [\<lparr>TimeStamp = 0, Account = ''acct'', ResourceId = ''id'', Project = ''p'',
          Deployment = ''d2'', Model = ''dall-e-3'', Type = ''image'',
          Metric = ''GeneratedImages'', Value = 20\<rparr>] []) = Inr (Some ([1], [20]))"
proof -
  let ?r = "\<lparr>TimeStamp = 0, Account = ''acct'', ResourceId = ''id'', Project = ''p'',
          Deployment = ''d2'', Model = ''dall-e-3'', Type = ''image'',
          Metric = ''GeneratedImages'', Value = 20\<rparr>"
  have ne: "[?r] \<noteq> []" by simp
  have inst: "\<exists>rep1 rep2.
      process [] ''Global Average'' 10.8 [?r] [] = Inr (Some rep1) \<and>
      process [] ''Europe (Sweden)'' 10.8 [?r] [] = Inr (Some rep2) \<and>
      map kWh (r_df_raw rep2) = map kWh (r_df_raw rep1) \<and>
      map Carbon_g (r_df_raw rep2) = map (\<lambda>c. c * (20 / 475)) (map Carbon_g (r_df_raw rep1)) \<and>
      total_kwh rep2 = total_kwh rep1 \<and>
      total_co2 rep2 = total_co2 rep1 * (20 / 475)"
    using carbon_linear_in_region [OF region_ga region_se ne, of "[]" "10.8" "[]"] by blast
  have e1: "map_sum id (map_option (\<lambda>rep. (map kWh (r_df_raw rep), map Carbon_g (r_df_raw rep))))
     (process [] ''Global Average'' 10.8 [?r] []) = Inr (Some ([1], [475]))"
    by (simp add: process_Some [OF region_ga] build_report_fields calc_kwh_Inr)
  have e2: "map_sum id (map_option (\<lambda>rep. (map kWh (r_df_raw rep), map Carbon_g (r_df_raw rep))))
     (process [] ''Europe (Sweden)'' 10.8 [?r] []) = Inr (Some ([1], [20]))"
    by (simp add: process_Some [OF region_se] build_report_fields calc_kwh_Inr)
  from region_ga region_se inst e1 e2 show ?thesis by blast
qed

subsection \<open>C8\<close>

text \<open>
  C8. In the usage aggregate per project, the input tokens are the sum of the values of
  the project's rows whose metric is exactly ProcessedPromptTokens, and the output tokens
  are the sum over its rows whose metric is GeneratedTokens or GeneratedCompletionTokens:
  a GeneratedCompletionTokens row counts as output and not as input.
\<close>

theorem token_sums_by_metric:
  assumes "REGION_INTENSITY region = Some g" and "u \<in> set df_raw"
  shows "\<exists>rep a. process fi region usd_rate df_raw df_cost = Inr (Some rep) \<and>
           filter (\<lambda>a. u_Project a = Project u) (df_usage_agg rep) = [a] \<and>
           u_Input_Tokens a =
             sum_list (map Value (filter (\<lambda>r. Project r = Project u \<and>
                Metric r = ''ProcessedPromptTokens'') df_raw)) \<and>
           u_Output_Tokens a =
             sum_list (map Value (filter (\<lambda>r. Project r = Project u \<and>
                Metric r \<in> {''GeneratedTokens'', ''GeneratedCompletionTokens''}) df_raw)) \<and>
           u_Output_Tokens a =
             sum_list (map Value (filter (\<lambda>r. Project r = Project u \<and>
                Metric r = ''GeneratedTokens'') df_raw)) +
             sum_list (map Value (filter (\<lambda>r. Project r = Project u \<and>
                Metric r = ''GeneratedCompletionTokens'') df_raw))"
proof -
  let ?P = "Project u"
  let ?df = "map (\<lambda>r. \<lparr>row = r, kWh = projr (calc_kwh r), Carbon_g = projr (calc_kwh r) * g\<rparr>) df_raw"
  let ?rep = "build_report fi usd_rate ?df df_cost"
  let ?a = "\<lparr>u_Project = ?P,
          u_Carbon_Total = sum_list (map Carbon_g (filter (\<lambda>e. Project (row e) = ?P) ?df)),
          u_Input_Tokens = sum_list (map (\<lambda>e. Value (row e))
             (filter (\<lambda>e. Metric (row e) = ''ProcessedPromptTokens'')
                (filter (\<lambda>e. Project (row e) = ?P) ?df))),
          u_Output_Tokens = sum_list (map (\<lambda>e. Value (row e))
             (filter (\<lambda>e. Metric (row e) \<in> set [''GeneratedTokens'', ''GeneratedCompletionTokens''])
                (filter (\<lambda>e. Project (row e) = ?P) ?df)))\<rparr>"
  have ne: "df_raw \<noteq> []" using assms(2) by auto
  have p: "process fi region usd_rate df_raw df_cost = Inr (Some ?rep)"
    by (rule process_Some [OF assms(1) ne])
  have mem: "?P \<in> (\<lambda>e. Project (row e)) ` set ?df"
    using assms(2) by (auto simp: image_iff)
  have f: "filter (\<lambda>a. u_Project a = ?P) (df_usage_agg ?rep) = [?a]"
    unfolding build_report_fields df_usage_agg_filter using mem by simp
  have i: "u_Input_Tokens ?a =
             sum_list (map Value (filter (\<lambda>r. Project r = ?P \<and>
                Metric r = ''ProcessedPromptTokens'') df_raw))"
    by (simp add: filter_map comp_def conj_commute)
  have o: "u_Output_Tokens ?a =
             sum_list (map Value (filter (\<lambda>r. Project r = ?P \<and>
                Metric r \<in> {''GeneratedTokens'', ''GeneratedCompletionTokens''}) df_raw))"
    by (simp add: filter_map comp_def conj_commute)
  have split_set: "(\<lambda>r. Project r = ?P \<and> Metric r \<in> {''GeneratedTokens'', ''GeneratedCompletionTokens''}) =
        (\<lambda>r. (Project r = ?P \<and> Metric r = ''GeneratedTokens'') \<or>
              (Project r = ?P \<and> Metric r = ''GeneratedCompletionTokens''))"
    by auto
  have "sum_list (map Value (filter (\<lambda>r. (Project r = ?P \<and> Metric r = ''GeneratedTokens'') \<or>
              (Project r = ?P \<and> Metric r = ''GeneratedCompletionTokens'')) df_raw)) =
        sum_list (map Value (filter (\<lambda>r. Project r = ?P \<and>
                Metric r = ''GeneratedTokens'') df_raw)) +
        sum_list (map Value (filter (\<lambda>r. Project r = ?P \<and>
                Metric r = ''GeneratedCompletionTokens'') df_raw))"
    by (rule sum_list_filter_disj) simp
  then have o2: "u_Output_Tokens ?a =
             sum_list (map Value (filter (\<lambda>r. Project r = ?P \<and>
                Metric r = ''GeneratedTokens'') df_raw)) +
             sum_list (map Value (filter (\<lambda>r. Project r = ?P \<and>
                Metric r = ''GeneratedCompletionTokens'') df_raw))"
    unfolding o split_set .
  from p f i o o2 show ?thesis by blast
qed

theorem token_sums_by_metric_witness:
  "\<exists>rep a. process [] ''Global Average'' 10.8
      [\<lparr>TimeStamp = 0, Account = ''acct'', ResourceId = ''id'', Project = ''p'',
        Deployment = ''d1'', Model = ''gpt-4'', Type = ''text'',
        Metric = ''GeneratedCompletionTokens'', Value = 7\<rparr>,
       \<lparr>TimeStamp = 0, Account = ''acct'', ResourceId = ''id'', Project = ''p'',
        Deployment = ''d1'', Model = ''gpt-4'', Type = ''text'',
        Metric = ''ProcessedPromptTokens'', Value = 3\<rparr>] [] = Inr (Some rep) \<and>
     filter (\<lambda>a. u_Project a = ''p'') (df_usage_agg rep) = [a] \<and>
     u_Input_Tokens a = 3 \<and> u_Output_Tokens a = 7"
proof -
  let ?u = "\<lparr>TimeStamp = 0, Account = ''acct'', ResourceId = ''id'', Project = ''p'',
        Deployment = ''d1'', Model = ''gpt-4'', Type = ''text'',
        Metric = ''GeneratedCompletionTokens'', Value = 7\<rparr>"
  let ?v = "\<lparr>TimeStamp = 0, Account = ''acct'', ResourceId = ''id'', Project = ''p'',
        Deployment = ''d1'', Model = ''gpt-4'', Type = ''text'',
        Metric = ''ProcessedPromptTokens'', Value = 3\<rparr>"
  have m: "?u \<in> set [?u, ?v]" by simp
  from token_sums_by_metric [OF region_ga m, of "[]" "10.8" "[]"]
  show ?thesis by simp
qed

subsection \<open>C9\<close>

text \<open>
  C9, as the script has it. With usage rows and no cost rows nothing raises, the total
  cost in SEK is 0.0 and every project of the summary carries a cost of 0.0. With no usage
  rows the processing block is skipped: nothing raises, and no summary and no total is
  produced, whatever the cost rows are.
\<close>

theorem empty_cost_or_usage:
  assumes "REGION_INTENSITY region = Some g"
  shows "(df_raw \<noteq> [] \<longrightarrow>
           (\<exists>rep. process fi region usd_rate df_raw [] = Inr (Some rep) \<and>
              total_cost_sek rep = 0 \<and>
              df_cost_agg rep = [] \<and>
              (\<forall>s\<in>set (df_project_summary rep). Cost_SEK s = 0) \<and>
              map ProjectName (df_project_summary rep) = sort (remdups (map Project df_raw)))) \<and>
         process fi region usd_rate [] df_cost = Inr None"
proof -
  have usage: "\<exists>rep. process fi region usd_rate df_raw [] = Inr (Some rep) \<and>
              total_cost_sek rep = 0 \<and>
              df_cost_agg rep = [] \<and>
              (\<forall>s\<in>set (df_project_summary rep). Cost_SEK s = 0) \<and>
              map ProjectName (df_project_summary rep) = sort (remdups (map Project df_raw))"
    if ne: "df_raw \<noteq> []"
  proof -
    let ?df = "map (\<lambda>r. \<lparr>row = r, kWh = projr (calc_kwh r), Carbon_g = projr (calc_kwh r) * g\<rparr>) df_raw"
    let ?rep = "build_report fi usd_rate ?df []"
    have p: "process fi region usd_rate df_raw [] = Inr (Some ?rep)"
      by (rule process_Some [OF assms ne])
    have s: "df_project_summary ?rep = map rename_with_zero_cost (df_usage_agg_of ?df)"
      by (simp add: build_report_def Let_def df_project_summary_of_def)
    have t: "total_cost_sek ?rep = 0" and a: "df_cost_agg ?rep = []"
      by (simp_all add: build_report_def Let_def)
    have z: "\<forall>s\<in>set (df_project_summary ?rep). Cost_SEK s = 0"
      unfolding s by (auto simp: rename_with_zero_cost_def)
    have n: "map ProjectName (df_project_summary ?rep) = sort (remdups (map Project df_raw))"
      unfolding s by (simp add: df_usage_agg_closed rename_with_zero_cost_def comp_def)
    from p t a z n show ?thesis by blast
  qed
  have none: "process fi region usd_rate [] df_cost = Inr None"
    by (rule process_empty [OF assms])
  from usage none show ?thesis by blast
qed

theorem empty_cost_or_usage_witness:
  "(\<exists>rep. process [] ''Global Average'' 10.8
      [\<lparr>TimeStamp = 0, Account = ''acct'', ResourceId = ''id'', Project = ''B'',
        Deployment = ''d1'', Model = ''gpt-4'', Type = ''text'',
        Metric = ''ProcessedPromptTokens'', Value = 1000\<rparr>] [] = Inr (Some rep) \<and>
     total_cost_sek rep = 0 \<and>
     map Cost_SEK (df_project_summary rep) = [0] \<and>
     map ProjectName (df_project_summary rep) = [''B'']) \<and>
   process [] ''Global Average'' 10.8 []
      [\<lparr>Date = 0, cost_ResourceId = ''/subscriptions/s/resourceGroups/A/x'',
        ActualCost = 100, OriginalCurrency = ''SEK''\<rparr>] = Inr None"
proof -
  define u where "u = \<lparr>TimeStamp = 0, Account = ''acct'', ResourceId = ''id'', Project = ''B'',
        Deployment = ''d1'', Model = ''gpt-4'', Type = ''text'',
        Metric = ''ProcessedPromptTokens'', Value = 1000\<rparr>"
  define c where "c = \<lparr>Date = 0, cost_ResourceId = ''/subscriptions/s/resourceGroups/A/x'',
        ActualCost = 100, OriginalCurrency = ''SEK''\<rparr>"
  define GA where "GA = ''Global Average''"
  have reg: "REGION_INTENSITY GA = Some 475" unfolding GA_def by (rule region_ga)
  have ne: "[u] \<noteq> []" by simp
  have names: "sort (remdups (map Project [u])) = [''B'']" by (simp add: u_def)
  note inst = empty_cost_or_usage [OF reg, of "[u]" "[]" "10.8" "[c]"]
  from inst have n: "process [] GA 10.8 [] [c] = Inr None" by (rule conjunct2)
  from inst ne have "\<exists>rep. process [] GA 10.8 [u] [] = Inr (Some rep) \<and>
              total_cost_sek rep = 0 \<and>
              df_cost_agg rep = [] \<and>
              (\<forall>s\<in>set (df_project_summary rep). Cost_SEK s = 0) \<and>
              map ProjectName (df_project_summary rep) = sort (remdups (map Project [u]))"
    by (elim conjE impE) assumption
  then have "\<exists>rep. process [] GA 10.8 [u] [] = Inr (Some rep) \<and>
     total_cost_sek rep = 0 \<and>
     map Cost_SEK (df_project_summary rep) = [0] \<and>
     map ProjectName (df_project_summary rep) = [''B'']"
  proof (elim exE conjE)
    fix rep
    assume p: "process [] GA 10.8 [u] [] = Inr (Some rep)"
      and t: "total_cost_sek rep = 0"
      and z: "\<forall>s\<in>set (df_project_summary rep). Cost_SEK s = 0"
      and nm: "map ProjectName (df_project_summary rep) = sort (remdups (map Project [u]))"
    from nm have nm': "map ProjectName (df_project_summary rep) = [''B'']"
      unfolding names .
    then obtain s where s: "df_project_summary rep = [s]" by auto
    with z have cz: "map Cost_SEK (df_project_summary rep) = [0]" by simp
    show ?thesis
      by (intro exI [of _ rep] conjI p t cz nm')
  qed
  with n have "(\<exists>rep. process [] GA 10.8 [u] [] = Inr (Some rep) \<and>
     total_cost_sek rep = 0 \<and>
     map Cost_SEK (df_project_summary rep) = [0] \<and>
     map ProjectName (df_project_summary rep) = [''B'']) \<and>
     process [] GA 10.8 [] [c] = Inr None"
    by (intro conjI)
  then show ?thesis unfolding u_def c_def GA_def .
qed

text \<open>
  C9 as stated asks for empty summaries with zeroed totals when there are no usage rows.
  With no usage row and one cost row of 100 SEK the script produces no report at all.
\<close>

theorem no_usage_rows_counterexample:
  "process [] ''Global Average'' 10.8 []
      [\<lparr>Date = 0, cost_ResourceId = ''/subscriptions/s/resourceGroups/A/x'',
        ActualCost = 100, OriginalCurrency = ''SEK''\<rparr>] = Inr None"
  by (simp add: process_def subscript_def REGION_INTENSITY_def)

subsection \<open>C10\<close>

text \<open>
  C10. Group sums partition the totals: for the enriched usage frame and every grouping
  key (model, project or any other), the group sums of carbon, of energy and of the raw
  value add up to the totals over all rows, and every row is in exactly one group. This
  holds for the frame by model and the usage aggregate by project that the script builds.
\<close>

theorem group_sums_partition_totals:
  assumes "REGION_INTENSITY region = Some g" and "df_raw \<noteq> []"
  shows "\<exists>rep. process fi region usd_rate df_raw df_cost = Inr (Some rep) \<and>
           map row (r_df_raw rep) = df_raw \<and>
           total_co2 rep = sum_list (map Carbon_g (r_df_raw rep)) \<and>
           total_kwh rep = sum_list (map kWh (r_df_raw rep)) \<and>
           sum_list (map m_Carbon_g (df_model rep)) = total_co2 rep \<and>
           sum_list (map m_Value (df_model rep)) = sum_list (map Value df_raw) \<and>
           sum_list (map u_Carbon_Total (df_usage_agg rep)) = total_co2 rep \<and>
           sum_list (map (\<lambda>kg. sum_list (map Carbon_g (snd kg))) (groupby key (r_df_raw rep)))
             = total_co2 rep \<and>
           sum_list (map (\<lambda>kg. sum_list (map kWh (snd kg))) (groupby key (r_df_raw rep)))
             = total_kwh rep \<and>
           sum_list (map (\<lambda>kg. sum_list (map (\<lambda>e. Value (row e)) (snd kg)))
               (groupby key (r_df_raw rep)))
             = sum_list (map Value df_raw) \<and>
           distinct (map fst (groupby key (r_df_raw rep))) \<and>
           mset (concat (map snd (groupby key (r_df_raw rep)))) = mset (r_df_raw rep)"
proof -
  let ?df = "map (\<lambda>r. \<lparr>row = r, kWh = projr (calc_kwh r), Carbon_g = projr (calc_kwh r) * g\<rparr>) df_raw"
  let ?rep = "build_report fi usd_rate ?df df_cost"
  have p: "process fi region usd_rate df_raw df_cost = Inr (Some ?rep)"
    by (rule process_Some [OF assms])
  have r: "map row (r_df_raw ?rep) = df_raw"
    by (simp add: build_report_fields comp_def)
  have v: "sum_list (map (\<lambda>e. Value (row e)) ?df) = sum_list (map Value df_raw)"
    by (simp add: comp_def)
  have t1: "total_co2 ?rep = sum_list (map Carbon_g (r_df_raw ?rep))"
    and t2: "total_kwh ?rep = sum_list (map kWh (r_df_raw ?rep))"
    by (simp_all add: build_report_fields)
  have m1: "sum_list (map m_Carbon_g (df_model ?rep)) = total_co2 ?rep"
    using groupby_sum [of Carbon_g "\<lambda>e. Model (row e)" ?df]
    by (simp add: build_report_fields df_model_of_def sum_list_sort_key comp_def case_prod_unfold)
  have m2: "sum_list (map m_Value (df_model ?rep)) = sum_list (map Value df_raw)"
    using groupby_sum [of "\<lambda>e. Value (row e)" "\<lambda>e. Model (row e)" ?df] v
    by (simp add: build_report_fields df_model_of_def sum_list_sort_key comp_def case_prod_unfold)
  have u1: "sum_list (map u_Carbon_Total (df_usage_agg ?rep)) = total_co2 ?rep"
    using groupby_sum [of Carbon_g "\<lambda>e. Project (row e)" ?df]
    by (simp add: build_report_fields df_usage_agg_of_def comp_def case_prod_unfold)
  have g1: "sum_list (map (\<lambda>kg. sum_list (map Carbon_g (snd kg))) (groupby key (r_df_raw ?rep)))
             = total_co2 ?rep"
    unfolding t1 by (rule groupby_sum)
  have g2: "sum_list (map (\<lambda>kg. sum_list (map kWh (snd kg))) (groupby key (r_df_raw ?rep)))
             = total_kwh ?rep"
    unfolding t2 by (rule groupby_sum)
  have g3: "sum_list (map (\<lambda>kg. sum_list (map (\<lambda>e. Value (row e)) (snd kg)))
               (groupby key (r_df_raw ?rep))) = sum_list (map Value df_raw)"
    using groupby_sum [of "\<lambda>e. Value (row e)" key "r_df_raw ?rep"] v
    by (simp add: build_report_fields)
  have d: "distinct (map fst (groupby key (r_df_raw ?rep)))"
    by (simp add: groupby_keys)
  have ms: "mset (concat (map snd (groupby key (r_df_raw ?rep)))) = mset (r_df_raw ?rep)"
    by (rule groupby_mset)
  from p r t1 t2 m1 m2 u1 g1 g2 g3 d ms show ?thesis by blast
qed

theorem group_sums_partition_totals_witness:
  "\<exists>rep. process [] ''Global Average'' 10.8
      [\<lparr>TimeStamp = 0, Account = ''acct'', ResourceId = ''id'', Project = ''p'',
        Deployment = ''d1'', Model = ''gpt-4'', Type = ''text'',
        Metric = ''ProcessedPromptTokens'', Value = 1000\<rparr>,
       \<lparr>TimeStamp = 0, Account = ''acct'', ResourceId = ''id'', Project = ''q'',
        Deployment = ''d2'', Model = ''dall-e-3'', Type = ''image'',
        Metric = ''GeneratedImages'', Value = 2\<rparr>] [] = Inr (Some rep) \<and>
     sum_list (map m_Carbon_g (df_model rep)) = total_co2 rep \<and>
     sum_list (map m_Value (df_model rep)) = 1002 \<and>
     sum_list (map u_Carbon_Total (df_usage_agg rep)) = total_co2 rep \<and>
     sum_list (map (\<lambda>kg. sum_list (map kWh (snd kg)))
        (groupby (\<lambda>e. Model (row e)) (r_df_raw rep))) = total_kwh rep"
proof -
  let ?raw = "[\<lparr>TimeStamp = 0, Account = ''acct'', ResourceId = ''id'', Project = ''p'',
        Deployment = ''d1'', Model = ''gpt-4'', Type = ''text'',
        Metric = ''ProcessedPromptTokens'', Value = 1000\<rparr>,
       \<lparr>TimeStamp = 0, Account = ''acct'', ResourceId = ''id'', Project = ''q'',
        Deployment = ''d2'', Model = ''dall-e-3'', Type = ''image'',
        Metric = ''GeneratedImages'', Value = 2\<rparr>]"
  have ne: "?raw \<noteq> []" by simp
  have v: "sum_list (map Value ?raw) = 1002" by simp
  from group_sums_partition_totals [OF region_ga ne, of "[]" "10.8" "[]" "\<lambda>e. Model (row e)"]
  show ?thesis unfolding v by blast
qed

end
